theory Spec2Isabelle
  imports Main
begin

section \<open>Data of the Algolia update webhook\<close>

text \<open>
  The development follows \<^verbatim>\<open>src/functions/algolia-update-webhook.ts\<close>. The handler
  talks to three services (the Algolia index, the Kontent.ai delivery API, the
  signature helper) and to two helpers of \<^verbatim>\<open>./utils/algoliaItem\<close>. The services and
  helpers are parameters of the model: each is a function from the request to
  the response, with \<open>None\<close> for a call that throws or whose promise rejects.
\<close>

text \<open>An index record. Only the fields the handler reads are kept.\<close>

record AlgoliaItem =
  objectID :: string
  codename :: string
  language :: string

text \<open>A delivery item: \<open>system.codename\<close>, \<open>system.type\<close>, \<open>system.language\<close>
  and the codenames of the elements it carries.\<close>

record IContentItem =
  system_codename :: string
  system_type :: string
  system_language :: string
  elements :: "string list"

text \<open>\<open>response.data\<close> of the delivery client: the item and the values of
  \<open>linkedItems\<close>, in the object's order.\<close>

record DeliveryData =
  data_item :: IContentItem
  data_linkedItems :: "IContentItem list"

text \<open>One entry of \<open>individialData.data.items\<close>.\<close>

record WebhookItem =
  item_codename :: string
  item_language :: string

record IWebhookDeliveryResponse =
  message_project_id :: string
  data_items :: "WebhookItem list"

text \<open>The parsed body: the new format carries \<open>notifications\<close>, the legacy
  format is one delivery response itself.\<close>

datatype webhookData =
  Notifications "IWebhookDeliveryResponse list"
| Legacy IWebhookDeliveryResponse

text \<open>The value each item callback returns.\<close>

record action =
  objectIdsToRemove :: "string list"
  recordsToReindex :: "AlgoliaItem list"

text \<open>The Algolia \<open>SearchIndex\<close>: \<open>search c l\<close> stands for
  \<open>index.search("", {facetFilters: [`content.codename: c`, `language: l`]})\<close> and gives
  \<open>response.hits\<close>; the two writers give \<open>objectIDs\<close> of their response after
  \<open>wait()\<close>.\<close>

record SearchIndex =
  search :: "string \<Rightarrow> string \<Rightarrow> AlgoliaItem list option"
  saveObjects :: "AlgoliaItem list \<Rightarrow> string list option"
  deleteObjects :: "string list \<Rightarrow> string list option"

text \<open>The delivery client of one project: \<open>client c l\<close> stands for
  \<open>item(c).languageParameter(l).depthParameter(100).toPromise()\<close>.\<close>

type_synonym DeliveryClient = "string \<Rightarrow> string \<Rightarrow> DeliveryData option"

text \<open>The helpers imported from \<^verbatim>\<open>./utils/algoliaItem\<close>, taken as parameters.\<close>

record algoliaItem_utils =
  canConvertToAlgoliaItem :: "string \<Rightarrow> IContentItem \<Rightarrow> bool"
  convertToAlgoliaItem :: "(string \<times> IContentItem) list \<Rightarrow> string \<Rightarrow> IContentItem \<Rightarrow> AlgoliaItem"

text \<open>The external calls.\<close>

datatype call =
  IndexSearch string string
| DeliverFetch string string string
| SaveObjects "AlgoliaItem list"
| DeleteObjects "string list"

section \<open>JavaScript \<open>Map\<close> and \<open>Set\<close>\<close>

text \<open>A \<open>Map\<close> keeps its keys in the order of their first insertion; setting a key
  that is present replaces the value in place.\<close>

fun Map_set :: "('k \<times> 'v) list \<Rightarrow> 'k \<Rightarrow> 'v \<Rightarrow> ('k \<times> 'v) list" where
  "Map_set [] k v = [(k, v)]"
| "Map_set ((k', v') # m) k v = (if k' = k then (k, v) # m else (k', v') # Map_set m k v)"

definition new_Map :: "('k \<times> 'v) list \<Rightarrow> ('k \<times> 'v) list" where
  "new_Map entries = foldl (\<lambda>m (k, v). Map_set m k v) [] entries"

definition Map_get :: "('k \<times> 'v) list \<Rightarrow> 'k \<Rightarrow> 'v option" where
  "Map_get m k = map_of m k"

definition Map_values :: "('k \<times> 'v) list \<Rightarrow> 'v list" where
  "Map_values m = map snd m"

definition Set_add :: "'a list \<Rightarrow> 'a \<Rightarrow> 'a list" where
  "Set_add s x = (if x \<in> set s then s else s @ [x])"

definition new_Set :: "'a list \<Rightarrow> 'a list" where
  "new_Set xs = foldl Set_add [] xs"

section \<open>The two readers\<close>

definition findAgoliaItems :: "SearchIndex \<Rightarrow> string \<Rightarrow> string \<Rightarrow> AlgoliaItem list" where
  "findAgoliaItems index itemCodename languageCodename =
     (case search index itemCodename languageCodename of
        Some hits \<Rightarrow> hits
      | None \<Rightarrow> [])"

definition findDeliverItemWithChildrenByCodename ::
    "DeliveryClient \<Rightarrow> string \<Rightarrow> string \<Rightarrow> (string \<times> IContentItem) list" where
  "findDeliverItemWithChildrenByCodename deliverClient c languageCodename =
     (case deliverClient c languageCodename of
        Some d \<Rightarrow> new_Map (map (\<lambda>i. (system_codename i, i)) (data_item d # data_linkedItems d))
      | None \<Rightarrow> new_Map [])"

section \<open>The item callbacks\<close>

text \<open>The callback mapped over \<open>existingAlgoliaItems\<close> (lines 135 to 150). The test
  \<open>!deliverItem || (type !== "article" && type !== "product")\<close> is the \<open>None\<close> case
  and the first \<open>if\<close>.\<close>

definition existing_action ::
    "algoliaItem_utils \<Rightarrow> DeliveryClient \<Rightarrow> string \<Rightarrow> AlgoliaItem \<Rightarrow> action" where
  "existing_action U deliverClient slug i =
     (let deliverItems = findDeliverItemWithChildrenByCodename deliverClient (codename i) (language i)
      in case Map_get deliverItems (codename i) of
           None \<Rightarrow> \<lparr>objectIdsToRemove = [objectID i], recordsToReindex = []\<rparr>
         | Some deliverItem \<Rightarrow>
             if system_type deliverItem \<noteq> ''article'' \<and> system_type deliverItem \<noteq> ''product''
             then \<lparr>objectIdsToRemove = [objectID i], recordsToReindex = []\<rparr>
             else \<lparr>objectIdsToRemove = [],
                   recordsToReindex = [convertToAlgoliaItem U deliverItems slug deliverItem]\<rparr>)"

text \<open>The callback mapped over \<open>individialData.data.items\<close> (lines 112 to 151).\<close>

definition item_actions ::
    "algoliaItem_utils \<Rightarrow> SearchIndex \<Rightarrow> DeliveryClient \<Rightarrow> string \<Rightarrow> WebhookItem \<Rightarrow> action list" where
  "item_actions U index deliverClient slug item =
     (let existingAlgoliaItems = findAgoliaItems index (item_codename item) (item_language item)
      in if existingAlgoliaItems = []
         then
           (let deliverItems =
                  findDeliverItemWithChildrenByCodename deliverClient (item_codename item) (item_language item)
            in case Map_get deliverItems (item_codename item) of
                 None \<Rightarrow> [\<lparr>objectIdsToRemove = [], recordsToReindex = []\<rparr>]
               | Some deliverItem \<Rightarrow>
                   if system_type deliverItem \<noteq> ''article'' \<and> system_type deliverItem \<noteq> ''product''
                   then [\<lparr>objectIdsToRemove = [], recordsToReindex = []\<rparr>]
                   else [\<lparr>objectIdsToRemove = [],
                          recordsToReindex =
                            (if canConvertToAlgoliaItem U slug deliverItem
                             then [convertToAlgoliaItem U deliverItems slug deliverItem]
                             else [])\<rparr>])
         else map (existing_action U deliverClient slug) existingAlgoliaItems)"

text \<open>The fetches one item callback issues once its search has answered: one for the
  item itself when there is no hit, one per hit otherwise, each for a codename and a
  language.\<close>

definition fetch_keys :: "SearchIndex \<Rightarrow> WebhookItem \<Rightarrow> (string \<times> string) list" where
  "fetch_keys index item =
     (let existingAlgoliaItems = findAgoliaItems index (item_codename item) (item_language item)
      in if existingAlgoliaItems = []
         then [(item_codename item, item_language item)]
         else map (\<lambda>i. (codename i, language i)) existingAlgoliaItems)"

section \<open>Merging and writing, per delivery response\<close>

definition actions_of ::
    "algoliaItem_utils \<Rightarrow> SearchIndex \<Rightarrow> DeliveryClient \<Rightarrow> string \<Rightarrow> WebhookItem list \<Rightarrow> action list" where
  "actions_of U index deliverClient slug items =
     concat (map (item_actions U index deliverClient slug) items)"

definition recordsToReIndex :: "action list \<Rightarrow> AlgoliaItem list" where
  "recordsToReIndex actions =
     Map_values (new_Map (concat (map (\<lambda>a. map (\<lambda>i. (codename i, i)) (recordsToReindex a)) actions)))"

definition objectIdsToRemove_merged :: "action list \<Rightarrow> string list" where
  "objectIdsToRemove_merged actions = new_Set (concat (map objectIdsToRemove actions))"

record notification_result =
  deletedObjectIds :: "string list option"
  reIndexedObjectIds :: "string list option"

text \<open>Lines 158 and 159: \<open>saveObjects\<close> is awaited before \<open>deleteObjects\<close> is
  issued; each is skipped on an empty list; a rejected write rejects the callback
  (\<open>None\<close>).\<close>

definition write_calls :: "AlgoliaItem list \<Rightarrow> string list \<Rightarrow> bool \<Rightarrow> call list" where
  "write_calls recs ids saved =
     (if recs \<noteq> [] then [SaveObjects recs] else []) @
     (if saved \<and> ids \<noteq> [] then [DeleteObjects ids] else [])"

definition apply_writes ::
    "SearchIndex \<Rightarrow> AlgoliaItem list \<Rightarrow> string list \<Rightarrow> call list \<times> notification_result option" where
  "apply_writes index recs ids =
     (let reIndexResponse = (if recs \<noteq> [] then map_option Some (saveObjects index recs) else Some None)
      in case reIndexResponse of
           None \<Rightarrow> (write_calls recs ids False, None)
         | Some re \<Rightarrow>
             (let deletedResponse =
                    (if ids \<noteq> [] then map_option Some (deleteObjects index ids) else Some None)
              in (write_calls recs ids True,
                  map_option (\<lambda>de. \<lparr>deletedObjectIds = de, reIndexedObjectIds = re\<rparr>) deletedResponse)))"

text \<open>The callback mapped over \<open>webhookDataArray\<close> (lines 104 to 165). Every item
  callback calls \<open>index.search\<close> as soon as it is called, so the searches of all items are
  issued first, in the order of the items; the fetches follow, each item's after its own
  search has answered (given here in the order of the items). \<open>Promise.all\<close> joins all of
  them before the merge and the writes.\<close>

definition delivery_reads :: "SearchIndex \<Rightarrow> IWebhookDeliveryResponse \<Rightarrow> call list" where
  "delivery_reads index individialData =
     map (\<lambda>item. IndexSearch (item_codename item) (item_language item)) (data_items individialData)
     @ concat (map (\<lambda>item. map (\<lambda>(c, l). DeliverFetch (message_project_id individialData) c l)
                               (fetch_keys index item))
                 (data_items individialData))"

definition delivery_actions ::
    "algoliaItem_utils \<Rightarrow> SearchIndex \<Rightarrow> (string \<Rightarrow> DeliveryClient) \<Rightarrow> string \<Rightarrow>
     IWebhookDeliveryResponse \<Rightarrow> action list" where
  "delivery_actions U index DeliveryClient slug individialData =
     actions_of U index (DeliveryClient (message_project_id individialData)) slug
       (data_items individialData)"

definition process_delivery ::
    "algoliaItem_utils \<Rightarrow> SearchIndex \<Rightarrow> (string \<Rightarrow> DeliveryClient) \<Rightarrow> string \<Rightarrow>
     IWebhookDeliveryResponse \<Rightarrow> call list \<times> notification_result option" where
  "process_delivery U index DeliveryClient slug individialData =
     (let actions = delivery_actions U index DeliveryClient slug individialData;
          w = apply_writes index (recordsToReIndex actions) (objectIdsToRemove_merged actions)
      in (delivery_reads index individialData @ fst w, snd w))"

section \<open>The handler\<close>

datatype jsvalue = JString string | JOther

definition hasStringProperty :: "string \<Rightarrow> (string \<Rightarrow> jsvalue option) option \<Rightarrow> bool" where
  "hasStringProperty propName v =
     (case v of
        None \<Rightarrow> False
      | Some obj \<Rightarrow> (case obj propName of Some (JString s) \<Rightarrow> True | _ \<Rightarrow> False))"

definition areValidQueryParams :: "(string \<Rightarrow> jsvalue option) option \<Rightarrow> bool" where
  "areValidQueryParams v =
     (v \<noteq> None \<and> hasStringProperty ''slug'' v \<and> hasStringProperty ''appId'' v
      \<and> hasStringProperty ''index'' v)"

definition stringProperty :: "string \<Rightarrow> (string \<Rightarrow> jsvalue option) option \<Rightarrow> string" where
  "stringProperty propName v =
     (case v of
        Some obj \<Rightarrow> (case obj propName of Some (JString s) \<Rightarrow> s | _ \<Rightarrow> [])
      | None \<Rightarrow> [])"

record event =
  httpMethod :: string
  body :: "string option"
  headers :: "string \<Rightarrow> string option"
  queryStringParameters :: "(string \<Rightarrow> jsvalue option) option"

datatype response_body = Text string | Summary "string list" "string list"

record response =
  statusCode :: nat
  response_body :: response_body
  contentType :: "string option"

text \<open>Errors the handler function does not catch; \<open>serializeUncaughtErrorsHandler\<close>
  receives them.\<close>

datatype uncaught = JSON_SyntaxError | WriteRejected

text \<open>What the module imports or reads from the environment.\<close>

record deps =
  KONTENT_SECRET :: "string option"
  ALGOLIA_API_KEY :: "string option"
  missingEnvVars :: "string list"
  isValidSignatureFromString :: "string \<Rightarrow> string \<Rightarrow> string option \<Rightarrow> bool"
  JSON_parse :: "string \<Rightarrow> webhookData option"
  createAlgoliaClient :: "string \<Rightarrow> string \<Rightarrow> string \<Rightarrow> SearchIndex"
  DeliveryClient :: "string \<Rightarrow> DeliveryClient"
  utils :: algoliaItem_utils

text \<open>JavaScript truthiness of an optional string: \<open>undefined\<close> and \<open>""\<close> are falsy.\<close>

definition truthy :: "string option \<Rightarrow> bool" where
  "truthy s = (case s of None \<Rightarrow> False | Some t \<Rightarrow> t \<noteq> [])"

fun join :: "string \<Rightarrow> string list \<Rightarrow> string" where
  "join sep [] = []"
| "join sep [x] = x"
| "join sep (x # y # ys) = x @ sep @ join sep (y # ys)"

definition text_response :: "nat \<Rightarrow> string \<Rightarrow> response" where
  "text_response code msg = \<lparr>statusCode = code, response_body = Text msg, contentType = None\<rparr>"

definition webhookDataArray :: "webhookData \<Rightarrow> IWebhookDeliveryResponse list" where
  "webhookDataArray w = (case w of Notifications ns \<Rightarrow> ns | Legacy n \<Rightarrow> [n])"

definition orEmpty :: "string list option \<Rightarrow> string list" where
  "orEmpty v = (case v of None \<Rightarrow> [] | Some xs \<Rightarrow> xs)"

definition missing_env_response :: "deps \<Rightarrow> response" where
  "missing_env_response D =
     text_response 500
       (join '', '' (missingEnvVars D)
        @ '' environment variables are missing, please check the documentation'')"

text \<open>Lines 101 to 179, once the checks have passed: the calls issued, one list
  per element of \<open>webhookDataArray\<close> (the callbacks run concurrently, so no order
  is fixed between the lists), and the response, or the uncaught error when a
  write rejects.\<close>

definition run ::
    "deps \<Rightarrow> string \<Rightarrow> (string \<Rightarrow> jsvalue option) option \<Rightarrow> webhookData \<Rightarrow>
     call list list \<times> (uncaught + response)" where
  "run D apiKey queryParams parsed =
     (let index = createAlgoliaClient D (stringProperty ''appId'' queryParams) apiKey
                    (stringProperty ''index'' queryParams);
          results = map (process_delivery (utils D) index (DeliveryClient D)
                           (stringProperty ''slug'' queryParams))
                      (webhookDataArray parsed)
      in (map fst results,
          case those (map snd results) of
            None \<Rightarrow> Inl WriteRejected
          | Some rs \<Rightarrow>
              Inr \<lparr>statusCode = 200,
                   response_body = Summary
                     (concat (map (\<lambda>r. orEmpty (deletedObjectIds r)) rs))
                     (concat (map (\<lambda>r. orEmpty (reIndexedObjectIds r)) rs)),
                   contentType = Some ''application/json''\<rparr>))"

text \<open>Lines 65 to 99: the checks, in the order of the source.\<close>

definition handler :: "deps \<Rightarrow> event \<Rightarrow> call list list \<times> (uncaught + response)" where
  "handler D ev =
     (if httpMethod ev \<noteq> ''POST'' then ([], Inr (text_response 405 ''Method Not Allowed''))
      else
        (case body ev of
           None \<Rightarrow> ([], Inr (text_response 400 ''Missing Data''))
         | Some b \<Rightarrow>
             (if b = [] then ([], Inr (text_response 400 ''Missing Data''))
              else
                (case (KONTENT_SECRET D, ALGOLIA_API_KEY D) of
                   (Some secret, Some apiKey) \<Rightarrow>
                     (if secret = [] \<or> apiKey = [] then ([], Inr (missing_env_response D))
                      else if \<not> truthy (headers ev ''x-kc-signature'')
                              \<or> \<not> isValidSignatureFromString D b secret
                                     (headers ev ''x-kontent-ai-signature'')
                        then ([], Inr (text_response 401 ''Unauthorized''))
                      else
                        (case JSON_parse D b of
                           None \<Rightarrow> ([], Inl JSON_SyntaxError)
                         | Some parsed \<Rightarrow>
                             (if \<not> areValidQueryParams (queryStringParameters ev)
                              then ([], Inr (text_response 400
                                     ''Missing some query parameters, please check the documentation''))
                              else run D apiKey (queryStringParameters ev) parsed)))
                 | (_, _) \<Rightarrow> ([], Inr (missing_env_response D))))))"

section \<open>The index, the actions and the calls of a run\<close>

text \<open>Names for three terms of \<open>run\<close>: the index it creates, the actions of one element
  of \<open>webhookDataArray\<close>, and the calls that element issues: its reads, then the writes of
  its merged records and identifiers (the delete call only if the upsert did not reject).\<close>

abbreviation run_index :: "deps \<Rightarrow> string \<Rightarrow> (string \<Rightarrow> jsvalue option) option \<Rightarrow> SearchIndex" where
  "run_index D apiKey queryParams \<equiv>
     createAlgoliaClient D (stringProperty ''appId'' queryParams) apiKey
       (stringProperty ''index'' queryParams)"

abbreviation run_actions ::
    "deps \<Rightarrow> string \<Rightarrow> (string \<Rightarrow> jsvalue option) option \<Rightarrow> IWebhookDeliveryResponse \<Rightarrow> action list" where
  "run_actions D apiKey queryParams n \<equiv>
     delivery_actions (utils D) (run_index D apiKey queryParams) (DeliveryClient D)
       (stringProperty ''slug'' queryParams) n"

abbreviation element_calls ::
    "deps \<Rightarrow> string \<Rightarrow> (string \<Rightarrow> jsvalue option) option \<Rightarrow> IWebhookDeliveryResponse \<Rightarrow> call list" where
  "element_calls D apiKey queryParams n \<equiv>
     delivery_reads (run_index D apiKey queryParams) n
     @ write_calls (recordsToReIndex (run_actions D apiKey queryParams n))
         (objectIdsToRemove_merged (run_actions D apiKey queryParams n))
         (recordsToReIndex (run_actions D apiKey queryParams n) = []
          \<or> saveObjects (run_index D apiKey queryParams)
               (recordsToReIndex (run_actions D apiKey queryParams n)) \<noteq> None)"

section \<open>Reading the calls of a run\<close>

definition is_read :: "call \<Rightarrow> bool" where
  "is_read c = (case c of IndexSearch _ _ \<Rightarrow> True | DeliverFetch _ _ _ \<Rightarrow> True | _ \<Rightarrow> False)"

definition is_SaveObjects :: "call \<Rightarrow> bool" where
  "is_SaveObjects c = (case c of SaveObjects _ \<Rightarrow> True | _ \<Rightarrow> False)"

definition is_DeleteObjects :: "call \<Rightarrow> bool" where
  "is_DeleteObjects c = (case c of DeleteObjects _ \<Rightarrow> True | _ \<Rightarrow> False)"

text \<open>All records handed to \<open>saveObjects\<close> by a list of calls.\<close>

definition saved_records :: "call list \<Rightarrow> AlgoliaItem list" where
  "saved_records cs = concat (map (\<lambda>c. case c of SaveObjects rs \<Rightarrow> rs | _ \<Rightarrow> []) cs)"

section \<open>The outcomes of the specification\<close>

text \<open>The three outcomes of the specification's eligibility contract, written from its
  words to compare the callbacks with: an entity that is not found or whose type is
  outside the allow-list is \<open>Ineligible\<close>; an allowed entity whose projection
  precondition fails is \<open>ProjectionRejected\<close>; otherwise it is \<open>Eligible\<close> with its
  record.\<close>

datatype Outcome = Ineligible | Eligible AlgoliaItem | ProjectionRejected

definition classify ::
    "algoliaItem_utils \<Rightarrow> string \<Rightarrow> (string \<times> IContentItem) list \<Rightarrow> IContentItem option \<Rightarrow> Outcome" where
  "classify U slug graph entity =
     (case entity of
        None \<Rightarrow> Ineligible
      | Some d \<Rightarrow>
          if system_type d \<noteq> ''article'' \<and> system_type d \<noteq> ''product'' then Ineligible
          else if canConvertToAlgoliaItem U slug d then Eligible (convertToAlgoliaItem U graph slug d)
          else ProjectionRejected)"

text \<open>The outcome of the entity a notification names, fetched for the notified codename
  and language.\<close>

abbreviation item_outcome ::
    "algoliaItem_utils \<Rightarrow> DeliveryClient \<Rightarrow> string \<Rightarrow> WebhookItem \<Rightarrow> Outcome" where
  "item_outcome U client slug item \<equiv>
     classify U slug
       (findDeliverItemWithChildrenByCodename client (item_codename item) (item_language item))
       (Map_get (findDeliverItemWithChildrenByCodename client (item_codename item) (item_language item))
          (item_codename item))"

section \<open>A stored index\<close>

text \<open>Modelled from the spec: the Algolia service behind \<open>SearchIndex\<close> is not part of
  the repository. The spec has the query select the records whose stored codename
  and language match, and the two writers act by \<open>objectId\<close>: an upsert replaces the
  record with the same identifier or adds it, a delete drops it.\<close>

definition stored_search :: "AlgoliaItem list \<Rightarrow> string \<Rightarrow> string \<Rightarrow> AlgoliaItem list" where
  "stored_search stored c l = filter (\<lambda>r. codename r = c \<and> language r = l) stored"

fun upsert_record :: "AlgoliaItem list \<Rightarrow> AlgoliaItem \<Rightarrow> AlgoliaItem list" where
  "upsert_record [] r = [r]"
| "upsert_record (x # xs) r = (if objectID x = objectID r then r # xs else x # upsert_record xs r)"

definition stored_index :: "AlgoliaItem list \<Rightarrow> SearchIndex" where
  "stored_index stored =
     \<lparr>search = (\<lambda>c l. Some (stored_search stored c l)),
      saveObjects = (\<lambda>rs. Some (map objectID rs)),
      deleteObjects = (\<lambda>ids. Some ids)\<rparr>"

definition apply_MutationSet :: "AlgoliaItem list \<Rightarrow> AlgoliaItem list \<Rightarrow> string list \<Rightarrow> AlgoliaItem list" where
  "apply_MutationSet stored recs ids =
     filter (\<lambda>r. objectID r \<notin> set ids) (foldl upsert_record stored recs)"

section \<open>Concrete inputs\<close>

text \<open>An instance of the two helpers: an item can be converted when it carries the
  slug element, and its record is named after its codename and language.\<close>

definition ex_utils :: algoliaItem_utils where
  "ex_utils =
     \<lparr>canConvertToAlgoliaItem = (\<lambda>slug item. slug \<in> set (elements item)),
      convertToAlgoliaItem = (\<lambda>allItems slug item.
         \<lparr>objectID = system_codename item @ ''_'' @ system_language item,
          codename = system_codename item,
          language = system_language item\<rparr>)\<rparr>"

definition post1 :: IContentItem where
  "post1 = \<lparr>system_codename = ''post-1'', system_type = ''article'', system_language = ''en'',
            elements = [''url'']\<rparr>"

definition post1_no_slug :: IContentItem where
  "post1_no_slug = \<lparr>system_codename = ''post-1'', system_type = ''article'', system_language = ''en'',
                    elements = []\<rparr>"

definition post1_es :: IContentItem where
  "post1_es = \<lparr>system_codename = ''post-1'', system_type = ''article'', system_language = ''es'',
               elements = [''url'']\<rparr>"

definition page1 :: IContentItem where
  "page1 = \<lparr>system_codename = ''page-1'', system_type = ''page'', system_language = ''en'',
            elements = [''url'']\<rparr>"

definition record_post1 :: AlgoliaItem where
  "record_post1 = \<lparr>objectID = ''post-1_en'', codename = ''post-1'', language = ''en''\<rparr>"

definition record_post1_es :: AlgoliaItem where
  "record_post1_es = \<lparr>objectID = ''post-1_es'', codename = ''post-1'', language = ''es''\<rparr>"

definition record_post2 :: AlgoliaItem where
  "record_post2 = \<lparr>objectID = ''abc123'', codename = ''post-2'', language = ''en''\<rparr>"

definition record_page1 :: AlgoliaItem where
  "record_page1 = \<lparr>objectID = ''page-1_en'', codename = ''page-1'', language = ''en''\<rparr>"

text \<open>A delivery API that knows \<open>post-1\<close> and \<open>page-1\<close> in English, and nothing else.\<close>

definition ex_DeliveryClient :: "string \<Rightarrow> DeliveryClient" where
  "ex_DeliveryClient projectId c l =
     (if c = ''post-1'' \<and> l = ''en'' then Some \<lparr>data_item = post1, data_linkedItems = []\<rparr>
      else if c = ''page-1'' \<and> l = ''en'' then Some \<lparr>data_item = page1, data_linkedItems = []\<rparr>
      else None)"

text \<open>The same, with \<open>post-1\<close> lacking its slug element.\<close>

definition ex_DeliveryClient_no_slug :: "string \<Rightarrow> DeliveryClient" where
  "ex_DeliveryClient_no_slug projectId c l =
     (if c = ''post-1'' \<and> l = ''en'' then Some \<lparr>data_item = post1_no_slug, data_linkedItems = []\<rparr>
      else None)"

text \<open>A delivery API that has \<open>post-1\<close> in English and in Spanish.\<close>

definition ex_DeliveryClient_languages :: "string \<Rightarrow> DeliveryClient" where
  "ex_DeliveryClient_languages projectId c l =
     (if c = ''post-1'' \<and> l = ''en'' then Some \<lparr>data_item = post1, data_linkedItems = []\<rparr>
      else if c = ''post-1'' \<and> l = ''es'' then Some \<lparr>data_item = post1_es, data_linkedItems = []\<rparr>
      else None)"

text \<open>A delivery API whose fetch of \<open>post-1\<close> in English fails, while the fetch in Spanish
  answers with the English item (the language fallback).\<close>

definition ex_DeliveryClient_fallback :: "string \<Rightarrow> DeliveryClient" where
  "ex_DeliveryClient_fallback projectId c l =
     (if c = ''post-1'' \<and> l = ''es'' then Some \<lparr>data_item = post1, data_linkedItems = []\<rparr>
      else None)"

definition item_post1 :: WebhookItem where
  "item_post1 = \<lparr>item_codename = ''post-1'', item_language = ''en''\<rparr>"

definition item_post1_es :: WebhookItem where
  "item_post1_es = \<lparr>item_codename = ''post-1'', item_language = ''es''\<rparr>"

definition item_post2 :: WebhookItem where
  "item_post2 = \<lparr>item_codename = ''post-2'', item_language = ''en''\<rparr>"

definition item_page1 :: WebhookItem where
  "item_page1 = \<lparr>item_codename = ''page-1'', item_language = ''en''\<rparr>"

definition delivery_of :: "WebhookItem list \<Rightarrow> IWebhookDeliveryResponse" where
  "delivery_of items = \<lparr>message_project_id = ''project'', data_items = items\<rparr>"

definition ex_queryParams :: "(string \<Rightarrow> jsvalue option) option" where
  "ex_queryParams =
     Some [''slug'' \<mapsto> JString ''url'', ''appId'' \<mapsto> JString ''app'', ''index'' \<mapsto> JString ''idx'']"

text \<open>Dependencies with both secrets set, every signature valid, and a body that is
  the word \<open>two\<close> (two notifications about \<open>post-1\<close>), \<open>one\<close> (the legacy format) or
  \<open>three\<close> (one notification with three items); any other body is not JSON.\<close>

definition ex_deps_with :: "SearchIndex \<Rightarrow> deps" where
  "ex_deps_with index =
     \<lparr>KONTENT_SECRET = Some ''secret'',
      ALGOLIA_API_KEY = Some ''key'',
      missingEnvVars = [],
      isValidSignatureFromString = (\<lambda>b secret signature. True),
      JSON_parse = (\<lambda>b. if b = ''two''
                          then Some (Notifications [delivery_of [item_post1], delivery_of [item_post1]])
                          else if b = ''one'' then Some (Legacy (delivery_of [item_post1]))
                          else if b = ''three''
                          then Some (Notifications [delivery_of [item_post1, item_post2, item_page1]])
                          else None),
      createAlgoliaClient = (\<lambda>appId apiKey indexName. index),
      DeliveryClient = ex_DeliveryClient,
      utils = ex_utils\<rparr>"

text \<open>The same over an index that holds the given records.\<close>

definition ex_deps :: "AlgoliaItem list \<Rightarrow> deps" where
  "ex_deps stored = ex_deps_with (stored_index stored)"

text \<open>The same with the two other delivery APIs.\<close>

definition ex_deps_languages :: "AlgoliaItem list \<Rightarrow> deps" where
  "ex_deps_languages stored = (ex_deps stored)\<lparr>DeliveryClient := ex_DeliveryClient_languages\<rparr>"

definition ex_deps_fallback :: "AlgoliaItem list \<Rightarrow> deps" where
  "ex_deps_fallback stored = (ex_deps stored)\<lparr>DeliveryClient := ex_DeliveryClient_fallback\<rparr>"

text \<open>An index whose search for one codename throws.\<close>

definition flaky_index :: "string \<Rightarrow> AlgoliaItem list \<Rightarrow> SearchIndex" where
  "flaky_index failing stored =
     \<lparr>search = (\<lambda>c l. if c = failing then None else Some (stored_search stored c l)),
      saveObjects = (\<lambda>rs. Some (map objectID rs)),
      deleteObjects = (\<lambda>ids. Some ids)\<rparr>"

definition ex_event :: "string option \<Rightarrow> (string \<Rightarrow> jsvalue option) option \<Rightarrow> event" where
  "ex_event b q =
     \<lparr>httpMethod = ''POST'', body = b,
      headers = [''x-kc-signature'' \<mapsto> ''sig'', ''x-kontent-ai-signature'' \<mapsto> ''sig''],
      queryStringParameters = q\<rparr>"

section \<open>Facts about \<open>Map\<close> and \<open>Set\<close>\<close>

lemma Map_set_keys:
  "map fst (Map_set m k v) = (if k \<in> set (map fst m) then map fst m else map fst m @ [k])"
  by (induction m k v rule: Map_set.induct) auto

lemma Map_set_distinct: "distinct (map fst m) \<Longrightarrow> distinct (map fst (Map_set m k v))"
  by (simp add: Map_set_keys)

lemma Map_set_map_of: "map_of (Map_set m k v) = (map_of m)(k \<mapsto> v)"
  by (induction m k v rule: Map_set.induct) (auto simp: fun_eq_iff)

lemma Map_set_not_Nil: "Map_set m k v \<noteq> []"
  by (cases m) (auto split: if_splits)

lemma Map_set_dom: "fst ` set (Map_set m k v) = insert k (fst ` set m)"
  by (induction m k v rule: Map_set.induct) auto

lemma foldl_Map_set_distinct:
  "distinct (map fst m) \<Longrightarrow> distinct (map fst (foldl (\<lambda>m (k, v). Map_set m k v) m es))"
  by (induction es arbitrary: m) (auto simp: Map_set_distinct)

lemma foldl_Map_set_keys:
  "fst ` set (foldl (\<lambda>m (k, v). Map_set m k v) m es) = fst ` set m \<union> fst ` set es"
proof (induction es arbitrary: m)
  case Nil
  show ?case by simp
next
  case (Cons e es)
  obtain k v where e: "e = (k, v)" by (cases e)
  have "fst ` set (foldl (\<lambda>m (k, v). Map_set m k v) (Map_set m k v) es)
          = fst ` set (Map_set m k v) \<union> fst ` set es"
    by (rule Cons.IH)
  then show ?case by (simp add: e Map_set_dom)
qed

lemma foldl_Map_set_map_of:
  "map_of (foldl (\<lambda>m (k, v). Map_set m k v) m es) = map_of m ++ map_of (rev es)"
  by (induction es arbitrary: m) (auto simp: Map_set_map_of map_add_def fun_eq_iff split: option.splits)

lemma new_Map_distinct: "distinct (map fst (new_Map es))"
  by (simp add: new_Map_def foldl_Map_set_distinct)

lemma new_Map_keys: "fst ` set (new_Map es) = fst ` set es"
  by (simp add: new_Map_def foldl_Map_set_keys)

lemma new_Map_map_of: "map_of (new_Map es) = map_of (rev es)"
  by (simp add: new_Map_def foldl_Map_set_map_of)

lemma new_Map_Nil_iff: "new_Map es = [] \<longleftrightarrow> es = []"
proof
  assume "new_Map es = []"
  then have "fst ` set (new_Map es) = {}" by simp
  then show "es = []" by (simp add: new_Map_keys)
qed (simp add: new_Map_def)

lemma new_Map_subset: "set (new_Map es) \<subseteq> set es"
proof
  fix p assume p: "p \<in> set (new_Map es)"
  obtain k v where kv: "p = (k, v)" by (cases p)
  from p kv have "map_of (new_Map es) k = Some v"
    using new_Map_distinct[of es] by simp
  then have "map_of (rev es) k = Some v" by (simp add: new_Map_map_of)
  then have "(k, v) \<in> set (rev es)" by (rule map_of_SomeD)
  with kv show "p \<in> set es" by simp
qed


lemma foldl_Set_add_set: "set (foldl Set_add s xs) = set s \<union> set xs"
  by (induction xs arbitrary: s) (auto simp: Set_add_def)


lemma new_Set_set: "set (new_Set xs) = set xs"
  by (simp add: new_Set_def foldl_Set_add_set)

lemma new_Set_Nil_iff: "new_Set xs = [] \<longleftrightarrow> xs = []"
  using new_Set_set[of xs] by (metis set_empty)

section \<open>Facts about the item callbacks and the merge\<close>

lemma found_has_codename:
  assumes "Map_get (findDeliverItemWithChildrenByCodename client c l) k = Some d"
  shows "system_codename d = k"
proof (cases "client c l")
  case None
  with assms show ?thesis
    by (simp add: findDeliverItemWithChildrenByCodename_def Map_get_def new_Map_def)
next
  case (Some r)
  let ?es = "map (\<lambda>i. (system_codename i, i)) (data_item r # data_linkedItems r)"
  from assms Some have "(k, d) \<in> set (new_Map ?es)"
    by (simp add: findDeliverItemWithChildrenByCodename_def Map_get_def map_of_SomeD)
  then have "(k, d) \<in> set ?es"
    using new_Map_subset[of ?es] by blast
  then show ?thesis by auto
qed

lemma merged_ids_set:
  "set (objectIdsToRemove_merged acts) = (\<Union>a \<in> set acts. set (objectIdsToRemove a))"
  by (simp add: objectIdsToRemove_merged_def new_Set_set)


lemma merged_records_subset:
  "set (recordsToReIndex acts) \<subseteq> (\<Union>a \<in> set acts. set (recordsToReindex a))"
proof
  fix r assume "r \<in> set (recordsToReIndex acts)"
  then obtain k where "(k, r) \<in> set (new_Map (concat (map (\<lambda>a. map (\<lambda>i. (codename i, i)) (recordsToReindex a)) acts)))"
    by (auto simp: recordsToReIndex_def Map_values_def)
  then have "(k, r) \<in> set (concat (map (\<lambda>a. map (\<lambda>i. (codename i, i)) (recordsToReindex a)) acts))"
    using new_Map_subset by blast
  then show "r \<in> (\<Union>a \<in> set acts. set (recordsToReindex a))" by auto
qed

lemma merged_records_keys:
  "map fst (new_Map (concat (map (\<lambda>a. map (\<lambda>i. (codename i, i)) (recordsToReindex a)) acts)))
     = map codename (recordsToReIndex acts)"
proof -
  let ?es = "concat (map (\<lambda>a. map (\<lambda>i. (codename i, i)) (recordsToReindex a)) acts)"
  have "\<forall>p \<in> set (new_Map ?es). fst p = codename (snd p)"
    using new_Map_subset[of ?es] by auto
  then show ?thesis
    by (simp add: recordsToReIndex_def Map_values_def)
qed

lemma merged_records_distinct: "distinct (map codename (recordsToReIndex acts))"
proof -
  have "distinct (map fst (new_Map (concat (map (\<lambda>a. map (\<lambda>i. (codename i, i)) (recordsToReindex a)) acts))))"
    by (rule new_Map_distinct)
  then show ?thesis by (simp only: merged_records_keys)
qed

lemma merged_records_Nil_iff:
  "recordsToReIndex acts = [] \<longleftrightarrow> (\<forall>a \<in> set acts. recordsToReindex a = [])"
  by (simp add: recordsToReIndex_def Map_values_def new_Map_Nil_iff)

lemma merged_ids_Nil_iff:
  "objectIdsToRemove_merged acts = [] \<longleftrightarrow> (\<forall>a \<in> set acts. objectIdsToRemove a = [])"
  by (simp add: objectIdsToRemove_merged_def new_Set_Nil_iff)

lemma existing_action_cases:
  "existing_action U client slug i = \<lparr>objectIdsToRemove = [objectID i], recordsToReindex = []\<rparr>
   \<or> (\<exists>d. Map_get (findDeliverItemWithChildrenByCodename client (codename i) (language i)) (codename i) = Some d
         \<and> (system_type d = ''article'' \<or> system_type d = ''product'')
         \<and> existing_action U client slug i =
             \<lparr>objectIdsToRemove = [],
              recordsToReindex = [convertToAlgoliaItem U
                 (findDeliverItemWithChildrenByCodename client (codename i) (language i)) slug d]\<rparr>)"
  by (auto simp: existing_action_def Let_def split: option.splits)

lemma item_actions_removal:
  assumes "a \<in> set (item_actions U index client slug item)" "oid \<in> set (objectIdsToRemove a)"
  shows "\<exists>e \<in> set (findAgoliaItems index (item_codename item) (item_language item)). objectID e = oid"
proof (cases "findAgoliaItems index (item_codename item) (item_language item) = []")
  case True
  with assms show ?thesis
    by (auto simp: item_actions_def Let_def split: option.splits if_splits)
next
  case False
  with assms(1) obtain e where e: "e \<in> set (findAgoliaItems index (item_codename item) (item_language item))"
    and a: "a = existing_action U client slug e"
    by (auto simp: item_actions_def Let_def)
  from existing_action_cases[of U client slug e] a assms(2) have "oid = objectID e"
    by auto
  with e show ?thesis by blast
qed

section \<open>Facts about the calls of a run\<close>

lemma apply_writes_calls:
  "\<exists>saved. fst (apply_writes index recs ids) = write_calls recs ids saved"
  by (auto simp: apply_writes_def Let_def split: option.splits)

lemma write_calls_cases:
  "write_calls recs ids saved = []
   \<or> write_calls recs ids saved = [SaveObjects recs] \<and> recs \<noteq> []
   \<or> write_calls recs ids saved = [DeleteObjects ids] \<and> ids \<noteq> []
   \<or> write_calls recs ids saved = [SaveObjects recs, DeleteObjects ids] \<and> recs \<noteq> [] \<and> ids \<noteq> []"
  by (simp add: write_calls_def)

lemma delivery_reads_is_read: "c \<in> set (delivery_reads index n) \<Longrightarrow> is_read c"
  by (auto simp: delivery_reads_def is_read_def)

lemma delivery_reads_search:
  "item \<in> set (data_items n) \<Longrightarrow>
   IndexSearch (item_codename item) (item_language item) \<in> set (delivery_reads index n)"
  by (auto simp: delivery_reads_def)

lemma delivery_reads_fetch:
  "item \<in> set (data_items n) \<Longrightarrow> (c, l) \<in> set (fetch_keys index item) \<Longrightarrow>
   DeliverFetch (message_project_id n) c l \<in> set (delivery_reads index n)"
  by (force simp: delivery_reads_def)

lemma process_delivery_calls:
  "\<exists>saved. fst (process_delivery U index DC slug n) =
     delivery_reads index n @
     write_calls (recordsToReIndex (delivery_actions U index DC slug n))
       (objectIdsToRemove_merged (delivery_actions U index DC slug n)) saved"
  using apply_writes_calls[of index "recordsToReIndex (delivery_actions U index DC slug n)"
      "objectIdsToRemove_merged (delivery_actions U index DC slug n)"]
  by (auto simp: process_delivery_def Let_def)

lemma run_calls:
  assumes "tr \<in> set (fst (run D apiKey qp parsed))"
  shows "\<exists>n \<in> set (webhookDataArray parsed).
           tr = fst (process_delivery (utils D)
                  (createAlgoliaClient D (stringProperty ''appId'' qp) apiKey (stringProperty ''index'' qp))
                  (DeliveryClient D) (stringProperty ''slug'' qp) n)"
  using assms by (auto simp: run_def Let_def)

lemma run_calls_length: "length (fst (run D apiKey qp parsed)) = length (webhookDataArray parsed)"
  by (simp add: run_def Let_def)

lemma split_after_reads:
  assumes "xs @ ys = pre @ c # post" "c \<notin> set xs"
  shows "\<exists>ws. pre = xs @ ws \<and> ys = ws @ c # post"
proof -
  from assms(1) obtain us where
    "xs = pre @ us \<and> us @ ys = c # post \<or> xs @ us = pre \<and> ys = us @ c # post"
    by (auto simp: append_eq_append_conv2)
  then show ?thesis
  proof
    assume a: "xs = pre @ us \<and> us @ ys = c # post"
    show ?thesis
    proof (cases us)
      case Nil
      with a show ?thesis by simp
    next
      case (Cons u us')
      with a have "c \<in> set xs" by auto
      with assms(2) show ?thesis by simp
    qed
  next
    assume "xs @ us = pre \<and> ys = us @ c # post"
    then show ?thesis by blast
  qed
qed

lemma delivery_actions_member:
  assumes "a \<in> set (delivery_actions U index DC slug n)"
  shows "\<exists>item \<in> set (data_items n).
           a \<in> set (item_actions U index (DC (message_project_id n)) slug item)"
  using assms by (auto simp: delivery_actions_def actions_of_def)

lemma delivery_removal_origin:
  assumes "oid \<in> set (objectIdsToRemove_merged (delivery_actions U index DC slug n))"
  shows "\<exists>item \<in> set (data_items n).
           \<exists>e \<in> set (findAgoliaItems index (item_codename item) (item_language item)). objectID e = oid"
proof -
  from assms obtain a where a: "a \<in> set (delivery_actions U index DC slug n)"
    and oid: "oid \<in> set (objectIdsToRemove a)"
    by (auto simp: merged_ids_set)
  from delivery_actions_member[OF a] obtain item where item: "item \<in> set (data_items n)"
    and ai: "a \<in> set (item_actions U index (DC (message_project_id n)) slug item)"
    by blast
  from item_actions_removal[OF ai oid] item show ?thesis by blast
qed

section \<open>Where upserts and removals come from\<close>

lemma item_actions_upsert_origin:
  assumes "a \<in> set (item_actions U index client slug item)" "r \<in> set (recordsToReindex a)"
  shows "\<exists>c l d. Map_get (findDeliverItemWithChildrenByCodename client c l) c = Some d
           \<and> (system_type d = ''article'' \<or> system_type d = ''product'')
           \<and> r = convertToAlgoliaItem U (findDeliverItemWithChildrenByCodename client c l) slug d"
proof (cases "findAgoliaItems index (item_codename item) (item_language item) = []")
  case True
  with assms show ?thesis
    by (auto simp: item_actions_def Let_def split: option.splits if_splits)
next
  case False
  with assms(1) obtain e where a: "a = existing_action U client slug e"
    by (auto simp: item_actions_def Let_def)
  from existing_action_cases[of U client slug e] a assms(2) obtain d where
    "Map_get (findDeliverItemWithChildrenByCodename client (codename e) (language e)) (codename e) = Some d"
    "system_type d = ''article'' \<or> system_type d = ''product''"
    "r = convertToAlgoliaItem U (findDeliverItemWithChildrenByCodename client (codename e) (language e)) slug d"
    by auto
  then show ?thesis by blast
qed

lemma delivery_upsert_origin:
  assumes "r \<in> set (recordsToReIndex (delivery_actions U index DC slug n))"
  shows "\<exists>c l d. Map_get (findDeliverItemWithChildrenByCodename (DC (message_project_id n)) c l) c = Some d
           \<and> (system_type d = ''article'' \<or> system_type d = ''product'')
           \<and> r = convertToAlgoliaItem U
                   (findDeliverItemWithChildrenByCodename (DC (message_project_id n)) c l) slug d"
proof -
  from assms merged_records_subset obtain a where
    a: "a \<in> set (delivery_actions U index DC slug n)" and r: "r \<in> set (recordsToReindex a)"
    by blast
  from delivery_actions_member[OF a] obtain item where
    "a \<in> set (item_actions U index (DC (message_project_id n)) slug item)" by blast
  from item_actions_upsert_origin[OF this r] show ?thesis .
qed

lemma existing_action_in_delivery:
  assumes "item \<in> set (data_items n)"
    and "e \<in> set (findAgoliaItems index (item_codename item) (item_language item))"
  shows "existing_action U (DC (message_project_id n)) slug e \<in> set (delivery_actions U index DC slug n)"
proof -
  from assms(2) have ne: "findAgoliaItems index (item_codename item) (item_language item) \<noteq> []"
    by auto
  with assms(2) have "existing_action U (DC (message_project_id n)) slug e
      \<in> set (item_actions U index (DC (message_project_id n)) slug item)"
    by (simp add: item_actions_def Let_def)
  with assms(1) show ?thesis
    by (auto simp: delivery_actions_def actions_of_def)
qed

lemma existing_action_not_found:
  assumes "Map_get (findDeliverItemWithChildrenByCodename client (codename e) (language e)) (codename e) = None"
  shows "existing_action U client slug e = \<lparr>objectIdsToRemove = [objectID e], recordsToReindex = []\<rparr>"
  using assms by (simp add: existing_action_def Let_def)


lemma existing_action_ignores_check:
  "existing_action (U\<lparr>canConvertToAlgoliaItem := anyCheck\<rparr>) client slug e
     = existing_action U client slug e"
  by (simp add: existing_action_def Let_def split: option.splits)

section \<open>An item without hits\<close>

lemma item_actions_no_hits:
  assumes "findAgoliaItems index (item_codename item) (item_language item) = []"
  shows "item_actions U index client slug item
      = [\<lparr>objectIdsToRemove = [],
          recordsToReindex =
            (case classify U slug
                    (findDeliverItemWithChildrenByCodename client (item_codename item) (item_language item))
                    (Map_get (findDeliverItemWithChildrenByCodename client (item_codename item)
                                (item_language item)) (item_codename item)) of
               Eligible r \<Rightarrow> [r]
             | _ \<Rightarrow> [])\<rparr>]"
  using assms by (simp add: item_actions_def classify_def Let_def split: option.splits)

section \<open>The checks of the handler\<close>

lemma areValidQueryParams_iff:
  "areValidQueryParams v \<longleftrightarrow>
     (\<exists>obj slug appId idx. v = Some obj \<and> obj ''slug'' = Some (JString slug)
        \<and> obj ''appId'' = Some (JString appId) \<and> obj ''index'' = Some (JString idx))"
  by (auto simp: areValidQueryParams_def hasStringProperty_def split: option.splits jsvalue.splits)

lemma handler_rejects_or_runs:
  "(fst (handler D ev) = [] \<and>
      snd (handler D ev) \<in>
        {Inr (text_response 405 ''Method Not Allowed''),
         Inr (text_response 400 ''Missing Data''),
         Inr (missing_env_response D),
         Inr (text_response 401 ''Unauthorized''),
         Inl JSON_SyntaxError,
         Inr (text_response 400 ''Missing some query parameters, please check the documentation'')})
   \<or> (truthy (body ev) \<and> areValidQueryParams (queryStringParameters ev)
       \<and> (\<exists>apiKey parsed. handler D ev = run D apiKey (queryStringParameters ev) parsed))"
  by (auto simp: handler_def truthy_def split: option.splits prod.splits)

section \<open>Failing reads and successful writes\<close>






lemma failed_item_contributes_nothing:
  assumes "item_actions U index client slug f = [\<lparr>objectIdsToRemove = [], recordsToReindex = []\<rparr>]"
  shows "recordsToReIndex (actions_of U index client slug (xs @ f # ys))
           = recordsToReIndex (actions_of U index client slug (xs @ ys))"
    and "objectIdsToRemove_merged (actions_of U index client slug (xs @ f # ys))
           = objectIdsToRemove_merged (actions_of U index client slug (xs @ ys))"
  using assms by (simp_all add: actions_of_def recordsToReIndex_def objectIdsToRemove_merged_def)

section \<open>Counting the writes\<close>

lemma count_in_concat:
  "(\<forall>x \<in> set xss. length (filter P x) \<le> 1) \<Longrightarrow> length (filter P (concat xss)) \<le> length xss"
  by (induction xss) (auto simp: le_Suc_eq)

lemma reads_hold_no_write:
  assumes "\<forall>c \<in> set reads. is_read c"
  shows "filter is_SaveObjects reads = []" "filter is_DeleteObjects reads = []"
  using assms
  by (auto simp: filter_empty_conv is_read_def is_SaveObjects_def is_DeleteObjects_def split: call.splits)

lemma write_calls_counts:
  "length (filter is_SaveObjects (write_calls recs ids saved)) \<le> 1"
  "length (filter is_DeleteObjects (write_calls recs ids saved)) \<le> 1"
  by (simp_all add: write_calls_def is_SaveObjects_def is_DeleteObjects_def)

lemma process_delivery_counts:
  "length (filter is_SaveObjects (fst (process_delivery U index DC slug n))) \<le> 1"
  "length (filter is_DeleteObjects (fst (process_delivery U index DC slug n))) \<le> 1"
proof -
  from process_delivery_calls[of U index DC slug n] obtain saved where
    eq: "fst (process_delivery U index DC slug n) =
           delivery_reads index n @
           write_calls (recordsToReIndex (delivery_actions U index DC slug n))
             (objectIdsToRemove_merged (delivery_actions U index DC slug n)) saved" by blast
  have r: "\<forall>c \<in> set (delivery_reads index n). is_read c"
    using delivery_reads_is_read by blast
  show "length (filter is_SaveObjects (fst (process_delivery U index DC slug n))) \<le> 1"
    using write_calls_counts(1)[of "recordsToReIndex (delivery_actions U index DC slug n)"
        "objectIdsToRemove_merged (delivery_actions U index DC slug n)" saved]
    by (simp add: eq reads_hold_no_write(1)[OF r])
  show "length (filter is_DeleteObjects (fst (process_delivery U index DC slug n))) \<le> 1"
    using write_calls_counts(2)[of "recordsToReIndex (delivery_actions U index DC slug n)"
        "objectIdsToRemove_merged (delivery_actions U index DC slug n)" saved]
    by (simp add: eq reads_hold_no_write(2)[OF r])
qed

lemma process_delivery_shape:
  "\<exists>reads writes. fst (process_delivery U index DC slug n) = reads @ writes
     \<and> list_all is_read reads
     \<and> (writes = [] \<or> (\<exists>recs. recs \<noteq> [] \<and> writes = [SaveObjects recs])
        \<or> (\<exists>ids. ids \<noteq> [] \<and> writes = [DeleteObjects ids])
        \<or> (\<exists>recs ids. recs \<noteq> [] \<and> ids \<noteq> [] \<and> writes = [SaveObjects recs, DeleteObjects ids]))"
proof -
  let ?recs = "recordsToReIndex (delivery_actions U index DC slug n)"
  let ?ids = "objectIdsToRemove_merged (delivery_actions U index DC slug n)"
  from process_delivery_calls[of U index DC slug n] obtain saved where
    eq: "fst (process_delivery U index DC slug n) = delivery_reads index n @ write_calls ?recs ?ids saved"
    by blast
  have r: "list_all is_read (delivery_reads index n)"
    using delivery_reads_is_read by (auto simp: list_all_iff)
  from write_calls_cases[of ?recs ?ids saved]
  have "write_calls ?recs ?ids saved = []
        \<or> (\<exists>recs. recs \<noteq> [] \<and> write_calls ?recs ?ids saved = [SaveObjects recs])
        \<or> (\<exists>ids. ids \<noteq> [] \<and> write_calls ?recs ?ids saved = [DeleteObjects ids])
        \<or> (\<exists>recs ids. recs \<noteq> [] \<and> ids \<noteq> [] \<and> write_calls ?recs ?ids saved = [SaveObjects recs, DeleteObjects ids])"
    by blast
  with eq r show ?thesis by blast
qed

section \<open>The merge keeps the last record of a codename\<close>

lemma last_wins:
  "map_of (rev (map (\<lambda>i. (f i, i)) xs)) k = Some v \<Longrightarrow> v = last (filter (\<lambda>x. f x = k) xs)"
  by (induction xs rule: rev_induct) (auto split: if_splits)

lemma merged_entries:
  "concat (map (\<lambda>a. map (\<lambda>i. (codename i, i)) (recordsToReindex a)) acts)
     = map (\<lambda>i. (codename i, i)) (concat (map recordsToReindex acts))"
  by (simp add: map_concat comp_def)

lemma merged_records_last:
  assumes "r \<in> set (recordsToReIndex acts)"
  shows "r = last (filter (\<lambda>x. codename x = codename r) (concat (map recordsToReindex acts)))"
proof -
  let ?es = "map (\<lambda>i. (codename i, i)) (concat (map recordsToReindex acts))"
  from assms obtain k where k: "(k, r) \<in> set (new_Map ?es)"
    by (auto simp: recordsToReIndex_def Map_values_def merged_entries)
  then have "(k, r) \<in> set ?es" using new_Map_subset[of ?es] by blast
  then have "k = codename r" by auto
  with k have "map_of (new_Map ?es) (codename r) = Some r"
    using new_Map_distinct[of ?es] by simp
  then have "map_of (rev ?es) (codename r) = Some r" by (simp add: new_Map_map_of)
  then show ?thesis by (rule last_wins)
qed

lemma merged_records_codenames:
  "set (map codename (recordsToReIndex acts)) = set (map codename (concat (map recordsToReindex acts)))"
proof -
  let ?es = "map (\<lambda>i. (codename i, i)) (concat (map recordsToReindex acts))"
  have "set (map codename (recordsToReIndex acts)) = fst ` set (new_Map ?es)"
    using merged_records_keys[of acts] by (simp add: merged_entries image_image flip: set_map)
  also have "\<dots> = fst ` set ?es" by (rule new_Map_keys)
  also have "\<dots> = set (map codename (concat (map recordsToReindex acts)))"
    by (simp add: image_image)
  finally show ?thesis .
qed


section \<open>When the merged sets are empty\<close>

lemma existing_action_nonempty:
  "\<not> (recordsToReindex (existing_action U client slug e) = []
      \<and> objectIdsToRemove (existing_action U client slug e) = [])"
  using existing_action_cases[of U client slug e] by auto

lemma item_actions_empty_iff:
  "(\<forall>a \<in> set (item_actions U index client slug item).
       recordsToReindex a = [] \<and> objectIdsToRemove a = [])
   \<longleftrightarrow> (findAgoliaItems index (item_codename item) (item_language item) = []
        \<and> (\<forall>r. classify U slug
                  (findDeliverItemWithChildrenByCodename client (item_codename item) (item_language item))
                  (Map_get (findDeliverItemWithChildrenByCodename client (item_codename item)
                              (item_language item)) (item_codename item)) \<noteq> Eligible r))"
proof (cases "findAgoliaItems index (item_codename item) (item_language item) = []")
  case True
  show ?thesis
    by (simp add: item_actions_no_hits[OF True] True split: Outcome.splits)
next
  case False
  then obtain e es where hits: "findAgoliaItems index (item_codename item) (item_language item) = e # es"
    by (cases "findAgoliaItems index (item_codename item) (item_language item)") auto
  then have "existing_action U client slug e \<in> set (item_actions U index client slug item)"
    by (simp add: item_actions_def Let_def)
  with existing_action_nonempty[of U client slug e] False show ?thesis by blast
qed

section \<open>The exact calls of a run and what reaches the merged sets\<close>

lemma apply_writes_calls_exact:
  "fst (apply_writes index recs ids) = write_calls recs ids (recs = [] \<or> saveObjects index recs \<noteq> None)"
  by (cases "saveObjects index recs") (auto simp: apply_writes_def write_calls_def Let_def)

lemma process_delivery_trace:
  "fst (process_delivery U index DC slug n)
     = delivery_reads index n
       @ write_calls (recordsToReIndex (delivery_actions U index DC slug n))
           (objectIdsToRemove_merged (delivery_actions U index DC slug n))
           (recordsToReIndex (delivery_actions U index DC slug n) = []
            \<or> saveObjects index (recordsToReIndex (delivery_actions U index DC slug n)) \<noteq> None)"
  by (simp add: process_delivery_def Let_def apply_writes_calls_exact)

lemma run_trace:
  "fst (run D apiKey qp parsed) = map (element_calls D apiKey qp) (webhookDataArray parsed)"
  by (simp add: run_def Let_def process_delivery_trace)

lemma element_calls_in_run:
  "n \<in> set (webhookDataArray parsed) \<Longrightarrow> element_calls D apiKey qp n \<in> set (fst (run D apiKey qp parsed))"
  by (simp add: run_trace)

lemma item_actions_in_delivery:
  "x \<in> set (data_items n) \<Longrightarrow> a \<in> set (item_actions U index (DC (message_project_id n)) slug x) \<Longrightarrow>
   a \<in> set (delivery_actions U index DC slug n)"
  by (auto simp: delivery_actions_def actions_of_def)


lemma merged_codenames_complete:
  "a \<in> set acts \<Longrightarrow> codename ` set (recordsToReindex a) \<subseteq> codename ` set (recordsToReIndex acts)"
proof -
  assume a: "a \<in> set acts"
  have "codename ` set (recordsToReIndex acts) = codename ` set (concat (map recordsToReindex acts))"
    using merged_records_codenames[of acts] by simp
  with a show ?thesis by auto
qed

lemma merged_last_kept:
  assumes "r \<in> set (concat (map recordsToReindex acts))"
    and "r = last (filter (\<lambda>y. codename y = codename r) (concat (map recordsToReindex acts)))"
  shows "r \<in> set (recordsToReIndex acts)"
proof -
  from assms(1) have "codename r \<in> set (map codename (concat (map recordsToReindex acts)))" by auto
  then have "codename r \<in> set (map codename (recordsToReIndex acts))"
    by (simp only: merged_records_codenames)
  then obtain r' where r': "r' \<in> set (recordsToReIndex acts)" and c: "codename r' = codename r" by auto
  from merged_records_last[OF r'] c
  have "r' = last (filter (\<lambda>y. codename y = codename r) (concat (map recordsToReindex acts)))" by simp
  with assms(2) r' show ?thesis by simp
qed

lemma one_per_key:
  "distinct (map f xs) \<Longrightarrow> k \<in> f ` set xs \<Longrightarrow> length (filter (\<lambda>y. f y = k) xs) = 1"
proof (induction xs)
  case Nil
  then show ?case by simp
next
  case (Cons x xs)
  show ?case
  proof (cases "f x = k")
    case True
    from Cons.prems(1) have "f x \<notin> f ` set xs" by simp
    with True have "\<forall>y \<in> set xs. f y \<noteq> k" by blast
    then have "filter (\<lambda>y. f y = k) xs = []"
      by (simp add: filter_empty_conv)
    with True show ?thesis by simp
  next
    case False
    with Cons show ?thesis by auto
  qed
qed





lemma existing_action_removal_iff:
  "objectIdsToRemove (existing_action U client slug e) \<noteq> []
   \<longleftrightarrow> existing_action U client slug e = \<lparr>objectIdsToRemove = [objectID e], recordsToReindex = []\<rparr>"
  using existing_action_cases[of U client slug e] by auto


section \<open>One item among the items of an element\<close>

lemma removal_free_item:
  assumes "item_actions U index client slug x = [\<lparr>objectIdsToRemove = [], recordsToReindex = rs\<rparr>]"
  shows "objectIdsToRemove_merged (actions_of U index client slug (xs @ x # ys))
           = objectIdsToRemove_merged (actions_of U index client slug (xs @ ys))"
  using assms by (simp add: actions_of_def objectIdsToRemove_merged_def)

lemma produced_records_split:
  assumes "item_actions U index client slug x = [\<lparr>objectIdsToRemove = ids, recordsToReindex = rs\<rparr>]"
  shows "concat (map recordsToReindex (actions_of U index client slug (xs @ x # ys)))
           = concat (map recordsToReindex (actions_of U index client slug xs)) @ rs
             @ concat (map recordsToReindex (actions_of U index client slug ys))"
  using assms by (simp add: actions_of_def)

lemma last_of_codename:
  assumes "\<forall>y \<in> set qs. codename y \<noteq> codename r"
  shows "last (filter (\<lambda>y. codename y = codename r) (ps @ [r] @ qs)) = r"
proof -
  from assms have "filter (\<lambda>y. codename y = codename r) qs = []"
    by (simp add: filter_empty_conv)
  then show ?thesis by simp
qed

lemma save_call_issued:
  "recs \<noteq> [] \<Longrightarrow> SaveObjects recs \<in> set (reads @ write_calls recs ids saved)"
  by (simp add: write_calls_def)






section \<open>Running the model on the concrete inputs\<close>

lemmas model_defs =
  run_def process_delivery_def delivery_actions_def delivery_reads_def actions_of_def
  item_actions_def fetch_keys_def existing_action_def apply_writes_def write_calls_def
  recordsToReIndex_def objectIdsToRemove_merged_def findAgoliaItems_def
  findDeliverItemWithChildrenByCodename_def new_Map_def Map_get_def Map_values_def
  new_Set_def Set_add_def webhookDataArray_def stringProperty_def orEmpty_def Let_def

lemmas example_defs =
  ex_deps_def ex_deps_with_def ex_deps_languages_def ex_deps_fallback_def flaky_index_def
  ex_utils_def ex_DeliveryClient_def ex_DeliveryClient_no_slug_def ex_DeliveryClient_languages_def
  ex_DeliveryClient_fallback_def item_post1_es_def post1_es_def record_post1_es_def ex_queryParams_def
  ex_event_def stored_index_def stored_search_def delivery_of_def item_post1_def item_post2_def
  item_page1_def post1_def post1_no_slug_def page1_def record_post1_def record_post2_def
  record_page1_def

lemma ex_run_post2:
  "fst (run (ex_deps [record_post2]) ''key'' ex_queryParams (Legacy (delivery_of [item_post2])))
   = [[IndexSearch ''post-2'' ''en'', DeliverFetch ''project'' ''post-2'' ''en'',
       DeleteObjects [''abc123'']]]"
  by (simp add: model_defs example_defs)

lemma ex_run_two_items:
  "fst (run (ex_deps [record_post2]) ''key'' ex_queryParams (Legacy (delivery_of [item_post1, item_post2])))
   = [[IndexSearch ''post-1'' ''en'', IndexSearch ''post-2'' ''en'',
       DeliverFetch ''project'' ''post-1'' ''en'', DeliverFetch ''project'' ''post-2'' ''en'',
       SaveObjects [record_post1], DeleteObjects [''abc123'']]]"
  by (simp add: model_defs example_defs)

lemma ex_handler_two:
  "fst (handler (ex_deps []) (ex_event (Some ''two'') ex_queryParams))
   = [[IndexSearch ''post-1'' ''en'', DeliverFetch ''project'' ''post-1'' ''en'', SaveObjects [record_post1]],
      [IndexSearch ''post-1'' ''en'', DeliverFetch ''project'' ''post-1'' ''en'', SaveObjects [record_post1]]]"
  by (simp add: handler_def truthy_def areValidQueryParams_def hasStringProperty_def model_defs example_defs)

lemma ex_run_post1_post2:
  "fst (run (ex_deps []) ''key'' ex_queryParams (Legacy (delivery_of [item_post1, item_post2])))
   = [[IndexSearch ''post-1'' ''en'', IndexSearch ''post-2'' ''en'',
       DeliverFetch ''project'' ''post-1'' ''en'', DeliverFetch ''project'' ''post-2'' ''en'',
       SaveObjects [record_post1]]]"
  by (simp add: model_defs example_defs)

lemma ex_outcome_post1:
  "item_outcome ex_utils (ex_DeliveryClient ''project'') ''url'' item_post1 = Eligible record_post1"
  by (simp add: classify_def model_defs example_defs)

lemma ex_actions_post2:
  "actions_of ex_utils (stored_index []) (ex_DeliveryClient ''project'') ''url'' [item_post2]
   = [\<lparr>objectIdsToRemove = [], recordsToReindex = []\<rparr>]"
  by (simp add: model_defs example_defs)

lemma ex_run_two_languages:
  "fst (run (ex_deps_languages []) ''key'' ex_queryParams (Legacy (delivery_of [item_post1, item_post1_es])))
   = [[IndexSearch ''post-1'' ''en'', IndexSearch ''post-1'' ''es'',
       DeliverFetch ''project'' ''post-1'' ''en'', DeliverFetch ''project'' ''post-1'' ''es'',
       SaveObjects [record_post1_es]]]"
  by (simp add: model_defs example_defs)

lemma ex_run_flaky:
  "fst (run (ex_deps_with (flaky_index ''post-1'' [record_post2])) ''key'' ex_queryParams
         (Legacy (delivery_of [item_post1, item_post2, item_post1_es])))
   = [[IndexSearch ''post-1'' ''en'', IndexSearch ''post-2'' ''en'', IndexSearch ''post-1'' ''es'',
       DeliverFetch ''project'' ''post-1'' ''en'', DeliverFetch ''project'' ''post-2'' ''en'',
       DeliverFetch ''project'' ''post-1'' ''es'',
       SaveObjects [record_post1], DeleteObjects [''abc123'']]]"
  by (simp add: model_defs example_defs)




section \<open>C1: an existing record whose entity lacks the slug\<close>

text \<open>C1. The index holds the record of \<open>post-1\<close>; the delivery API returns \<open>post-1\<close> as
  an article without the slug element \<open>url\<close>, so the specification's outcome is
  \<open>ProjectionRejected\<close>. The callback over the existing records does not consult
  \<open>canConvertToAlgoliaItem\<close>: it upserts the converted record and schedules no removal,
  where the claim asks for the removal of \<open>post-1_en\<close> and no upsert. The branch for a
  never-indexed item does make the check and produces no record. Whatever the check is, the
  callback over the existing records gives the same action (last conjunct).\<close>

theorem existing_record_without_slug_is_upserted:
  "classify ex_utils ''url''
     (findDeliverItemWithChildrenByCodename (ex_DeliveryClient_no_slug ''project'') ''post-1'' ''en'')
     (Map_get (findDeliverItemWithChildrenByCodename (ex_DeliveryClient_no_slug ''project'') ''post-1'' ''en'')
        ''post-1'')
     = ProjectionRejected
   \<and> findAgoliaItems (stored_index [record_post1]) ''post-1'' ''en'' = [record_post1]
   \<and> existing_action ex_utils (ex_DeliveryClient_no_slug ''project'') ''url'' record_post1
       = \<lparr>objectIdsToRemove = [], recordsToReindex = [record_post1]\<rparr>
   \<and> recordsToReIndex (delivery_actions ex_utils (stored_index [record_post1]) ex_DeliveryClient_no_slug
         ''url'' (delivery_of [item_post1])) = [record_post1]
   \<and> objectIdsToRemove_merged (delivery_actions ex_utils (stored_index [record_post1])
         ex_DeliveryClient_no_slug ''url'' (delivery_of [item_post1])) = []
   \<and> item_actions ex_utils (stored_index []) (ex_DeliveryClient_no_slug ''project'') ''url'' item_post1
       = [\<lparr>objectIdsToRemove = [], recordsToReindex = []\<rparr>]
   \<and> existing_action (U\<lparr>canConvertToAlgoliaItem := anyCheck\<rparr>) client slug e
       = existing_action U client slug e"
  unfolding existing_action_ignores_check
  by (simp add: classify_def model_defs example_defs)

section \<open>C2: the writes of a run\<close>

text \<open>C2, as the code has it. A run issues one list of calls per element of
  \<open>webhookDataArray\<close>. Each list is the element's reads (index searches and fetches only)
  followed by its writes: nothing, one \<open>saveObjects\<close> of a non-empty list, one
  \<open>deleteObjects\<close> of a non-empty list, or the first then the second. So a run makes at
  most as many upsert calls, and as many delete calls, as \<open>webhookDataArray\<close> has elements:
  at most one of each for the legacy body.\<close>

theorem writes_once_per_delivery:
  "length (fst (run D apiKey qp parsed)) = length (webhookDataArray parsed)
   \<and> (\<forall>tr \<in> set (fst (run D apiKey qp parsed)).
        \<exists>reads writes. tr = reads @ writes \<and> list_all is_read reads
          \<and> (writes = [] \<or> (\<exists>recs. recs \<noteq> [] \<and> writes = [SaveObjects recs])
             \<or> (\<exists>ids. ids \<noteq> [] \<and> writes = [DeleteObjects ids])
             \<or> (\<exists>recs ids. recs \<noteq> [] \<and> ids \<noteq> [] \<and> writes = [SaveObjects recs, DeleteObjects ids])))
   \<and> length (filter is_SaveObjects (concat (fst (run D apiKey qp parsed)))) \<le> length (webhookDataArray parsed)
   \<and> length (filter is_DeleteObjects (concat (fst (run D apiKey qp parsed)))) \<le> length (webhookDataArray parsed)"
proof (intro conjI ballI)
  show "length (fst (run D apiKey qp parsed)) = length (webhookDataArray parsed)"
    by (rule run_calls_length)
next
  fix tr assume "tr \<in> set (fst (run D apiKey qp parsed))"
  from run_calls[OF this] process_delivery_shape
  show "\<exists>reads writes. tr = reads @ writes \<and> list_all is_read reads
          \<and> (writes = [] \<or> (\<exists>recs. recs \<noteq> [] \<and> writes = [SaveObjects recs])
             \<or> (\<exists>ids. ids \<noteq> [] \<and> writes = [DeleteObjects ids])
             \<or> (\<exists>recs ids. recs \<noteq> [] \<and> ids \<noteq> [] \<and> writes = [SaveObjects recs, DeleteObjects ids]))"
    by metis
next
  have "\<forall>tr \<in> set (fst (run D apiKey qp parsed)). length (filter is_SaveObjects tr) \<le> 1"
    using run_calls process_delivery_counts(1) by metis
  from count_in_concat[OF this] show
    "length (filter is_SaveObjects (concat (fst (run D apiKey qp parsed)))) \<le> length (webhookDataArray parsed)"
    by (simp add: run_calls_length)
next
  have "\<forall>tr \<in> set (fst (run D apiKey qp parsed)). length (filter is_DeleteObjects tr) \<le> 1"
    using run_calls process_delivery_counts(2) by metis
  from count_in_concat[OF this] show
    "length (filter is_DeleteObjects (concat (fst (run D apiKey qp parsed)))) \<le> length (webhookDataArray parsed)"
    by (simp add: run_calls_length)
qed

theorem writes_once_per_delivery_witness:
  "length (webhookDataArray (Legacy (delivery_of [item_post1, item_post2]))) = 1
   \<and> fst (run (ex_deps [record_post2]) ''key'' ex_queryParams (Legacy (delivery_of [item_post1, item_post2])))
      = [[IndexSearch ''post-1'' ''en'', IndexSearch ''post-2'' ''en'',
          DeliverFetch ''project'' ''post-1'' ''en'', DeliverFetch ''project'' ''post-2'' ''en'']
         @ [SaveObjects [record_post1], DeleteObjects [''abc123'']]]
   \<and> length (filter is_SaveObjects (concat (fst (run (ex_deps [record_post2]) ''key'' ex_queryParams
         (Legacy (delivery_of [item_post1, item_post2])))))) \<le> 1
   \<and> length (filter is_DeleteObjects (concat (fst (run (ex_deps [record_post2]) ''key'' ex_queryParams
         (Legacy (delivery_of [item_post1, item_post2])))))) \<le> 1"
proof -
  have l: "length (webhookDataArray (Legacy (delivery_of [item_post1, item_post2]))) = 1"
    by (simp add: webhookDataArray_def)
  from writes_once_per_delivery[of "ex_deps [record_post2]" "''key''" ex_queryParams
      "Legacy (delivery_of [item_post1, item_post2])"] l
  have "length (filter is_SaveObjects (concat (fst (run (ex_deps [record_post2]) ''key'' ex_queryParams
         (Legacy (delivery_of [item_post1, item_post2])))))) \<le> 1"
    and "length (filter is_DeleteObjects (concat (fst (run (ex_deps [record_post2]) ''key'' ex_queryParams
         (Legacy (delivery_of [item_post1, item_post2])))))) \<le> 1"
    by simp_all
  with l ex_run_two_items show ?thesis by simp
qed

text \<open>C2 as stated fails: a body with two notifications about \<open>post-1\<close>, over an empty
  index, makes two \<open>saveObjects\<close> calls in one run.\<close>

theorem two_notifications_two_upsert_calls:
  "length (filter is_SaveObjects
     (concat (fst (handler (ex_deps []) (ex_event (Some ''two'') ex_queryParams))))) = 2"
  by (simp add: ex_handler_two is_SaveObjects_def)

section \<open>C3: deduplication\<close>




section \<open>C4: running again\<close>

text \<open>C4, as the code has it. The upserts and removals of a delivery are both empty exactly
  when, for every item, the index query returns no record and the directly fetched entity
  is not \<open>Eligible\<close> (not found, not of an allowed type, or rejected by the projection). As
  soon as the index holds a record for a notified item the result is not empty: the record
  is either removed or upserted again, whether or not the index already holds the very
  record the run writes.\<close>

theorem mutation_set_empty_iff:
  "(recordsToReIndex (delivery_actions U index DC slug n) = []
      \<and> objectIdsToRemove_merged (delivery_actions U index DC slug n) = [])
   \<longleftrightarrow> (\<forall>item \<in> set (data_items n).
          findAgoliaItems index (item_codename item) (item_language item) = []
          \<and> (\<forall>r. classify U slug
                    (findDeliverItemWithChildrenByCodename (DC (message_project_id n))
                       (item_codename item) (item_language item))
                    (Map_get (findDeliverItemWithChildrenByCodename (DC (message_project_id n))
                                (item_codename item) (item_language item)) (item_codename item))
                  \<noteq> Eligible r))"
proof -
  let ?acts = "delivery_actions U index DC slug n"
  have "(recordsToReIndex ?acts = [] \<and> objectIdsToRemove_merged ?acts = [])
        \<longleftrightarrow> (\<forall>a \<in> set ?acts. recordsToReindex a = [] \<and> objectIdsToRemove a = [])"
    by (auto simp: merged_records_Nil_iff merged_ids_Nil_iff)
  also have "\<dots> \<longleftrightarrow> (\<forall>item \<in> set (data_items n).
       \<forall>a \<in> set (item_actions U index (DC (message_project_id n)) slug item).
         recordsToReindex a = [] \<and> objectIdsToRemove a = [])"
    by (auto simp: delivery_actions_def actions_of_def)
  also have "\<dots> \<longleftrightarrow> (\<forall>item \<in> set (data_items n).
          findAgoliaItems index (item_codename item) (item_language item) = []
          \<and> (\<forall>r. classify U slug
                    (findDeliverItemWithChildrenByCodename (DC (message_project_id n))
                       (item_codename item) (item_language item))
                    (Map_get (findDeliverItemWithChildrenByCodename (DC (message_project_id n))
                                (item_codename item) (item_language item)) (item_codename item))
                  \<noteq> Eligible r))"
    by (simp only: item_actions_empty_iff)
  finally show ?thesis .
qed

theorem mutation_set_empty_iff_witness:
  "findAgoliaItems (stored_index []) ''post-2'' ''en'' = []
   \<and> classify ex_utils ''url''
        (findDeliverItemWithChildrenByCodename (ex_DeliveryClient ''project'') ''post-2'' ''en'')
        (Map_get (findDeliverItemWithChildrenByCodename (ex_DeliveryClient ''project'') ''post-2'' ''en'')
           ''post-2'') = Ineligible
   \<and> recordsToReIndex (delivery_actions ex_utils (stored_index []) ex_DeliveryClient ''url''
         (delivery_of [item_post2])) = []
   \<and> objectIdsToRemove_merged (delivery_actions ex_utils (stored_index []) ex_DeliveryClient ''url''
         (delivery_of [item_post2])) = []"
proof -
  have h: "findAgoliaItems (stored_index []) ''post-2'' ''en'' = []"
    by (simp add: findAgoliaItems_def stored_index_def stored_search_def)
  have c: "classify ex_utils ''url''
        (findDeliverItemWithChildrenByCodename (ex_DeliveryClient ''project'') ''post-2'' ''en'')
        (Map_get (findDeliverItemWithChildrenByCodename (ex_DeliveryClient ''project'') ''post-2'' ''en'')
           ''post-2'') = Ineligible"
    by (simp add: classify_def model_defs example_defs)
  from mutation_set_empty_iff[of ex_utils "stored_index []" ex_DeliveryClient "''url''"
      "delivery_of [item_post2]"]
  have "recordsToReIndex (delivery_actions ex_utils (stored_index []) ex_DeliveryClient ''url''
         (delivery_of [item_post2])) = []
      \<and> objectIdsToRemove_merged (delivery_actions ex_utils (stored_index []) ex_DeliveryClient ''url''
         (delivery_of [item_post2])) = []"
    by (simp add: delivery_of_def item_post2_def h c)
  with h c show ?thesis by simp
qed

text \<open>C4 as stated fails. Over an empty index a notification about \<open>post-1\<close> upserts its
  record and removes nothing; applied to the index this gives the index holding that record.
  The same notification run again over that index upserts the same record again, which
  leaves the index unchanged, so the second result is not empty.\<close>

theorem second_run_upserts_again:
  "recordsToReIndex (delivery_actions ex_utils (stored_index []) ex_DeliveryClient ''url''
       (delivery_of [item_post1])) = [record_post1]
   \<and> objectIdsToRemove_merged (delivery_actions ex_utils (stored_index []) ex_DeliveryClient ''url''
       (delivery_of [item_post1])) = []
   \<and> apply_MutationSet [] [record_post1] [] = [record_post1]
   \<and> recordsToReIndex (delivery_actions ex_utils (stored_index [record_post1]) ex_DeliveryClient ''url''
       (delivery_of [item_post1])) = [record_post1]
   \<and> objectIdsToRemove_merged (delivery_actions ex_utils (stored_index [record_post1]) ex_DeliveryClient
       ''url'' (delivery_of [item_post1])) = []
   \<and> apply_MutationSet [record_post1] [record_post1] [] = [record_post1]
   \<and> recordsToReIndex (delivery_actions ex_utils (stored_index [record_post1]) ex_DeliveryClient ''url''
       (delivery_of [item_post1])) \<noteq> []"
  by (simp add: apply_MutationSet_def model_defs example_defs)

section \<open>C5: an indexed record whose entity is gone\<close>

text \<open>C5. A notification names codename \<open>X\<close>; the index query returns a record \<open>e\<close> of
  \<open>X\<close>; the entity \<open>X\<close> has been deleted, so the content fetch finds no \<open>X\<close> in any
  language (an empty or failed fetch included). Then the removals of the delivery contain
  \<open>e\<close>'s \<open>objectID\<close> and no record to upsert has codename \<open>X\<close>. The helper
  \<open>convertToAlgoliaItem\<close> is assumed to give a record the codename of the item it
  converts.\<close>

theorem deleted_entity_is_removed_not_upserted:
  assumes "item \<in> set (data_items n)"
    and "item_codename item = X"
    and "e \<in> set (findAgoliaItems index (item_codename item) (item_language item))"
    and "codename e = X"
    and "\<forall>l. Map_get (findDeliverItemWithChildrenByCodename (DC (message_project_id n)) X l) X = None"
    and "\<forall>m s d. codename (convertToAlgoliaItem U m s d) = system_codename d"
  shows "objectID e \<in> set (objectIdsToRemove_merged (delivery_actions U index DC slug n))
       \<and> (\<forall>r \<in> set (recordsToReIndex (delivery_actions U index DC slug n)). codename r \<noteq> X)"
proof
  from assms(4,5) have "Map_get (findDeliverItemWithChildrenByCodename (DC (message_project_id n))
      (codename e) (language e)) (codename e) = None" by simp
  from existing_action_not_found[OF this, of U slug] existing_action_in_delivery[OF assms(1,3), of U DC slug]
  have "\<lparr>objectIdsToRemove = [objectID e], recordsToReindex = []\<rparr>
          \<in> set (delivery_actions U index DC slug n)" by simp
  then show "objectID e \<in> set (objectIdsToRemove_merged (delivery_actions U index DC slug n))"
    by (force simp: merged_ids_set)
next
  show "\<forall>r \<in> set (recordsToReIndex (delivery_actions U index DC slug n)). codename r \<noteq> X"
  proof
    fix r assume "r \<in> set (recordsToReIndex (delivery_actions U index DC slug n))"
    from delivery_upsert_origin[OF this] obtain c l d where
      found: "Map_get (findDeliverItemWithChildrenByCodename (DC (message_project_id n)) c l) c = Some d"
      and r: "r = convertToAlgoliaItem U
                   (findDeliverItemWithChildrenByCodename (DC (message_project_id n)) c l) slug d"
      by blast
    from found_has_codename[OF found] have "system_codename d = c" .
    with r assms(6) have cr: "codename r = c" by simp
    show "codename r \<noteq> X"
    proof
      assume "codename r = X"
      with cr found assms(5) show False by simp
    qed
  qed
qed

theorem deleted_entity_is_removed_not_upserted_witness:
  "item_post2 \<in> set (data_items (delivery_of [item_post2]))
   \<and> item_codename item_post2 = ''post-2''
   \<and> record_post2 \<in> set (findAgoliaItems (stored_index [record_post2]) ''post-2'' ''en'')
   \<and> codename record_post2 = ''post-2''
   \<and> (\<forall>l. Map_get (findDeliverItemWithChildrenByCodename (ex_DeliveryClient ''project'') ''post-2'' l)
              ''post-2'' = None)
   \<and> (\<forall>m s d. codename (convertToAlgoliaItem ex_utils m s d) = system_codename d)
   \<and> ''abc123'' \<in> set (objectIdsToRemove_merged
         (delivery_actions ex_utils (stored_index [record_post2]) ex_DeliveryClient ''url''
            (delivery_of [item_post2])))
   \<and> \<not> (\<exists>r \<in> set (recordsToReIndex
         (delivery_actions ex_utils (stored_index [record_post2]) ex_DeliveryClient ''url''
            (delivery_of [item_post2]))). codename r = ''post-2'')"
  using deleted_entity_is_removed_not_upserted[of item_post2 "delivery_of [item_post2]" "''post-2''"
      record_post2 "stored_index [record_post2]" ex_DeliveryClient ex_utils "''url''"]
  by (simp add: model_defs example_defs)

section \<open>C6: the type gate\<close>

text \<open>C6. Every record a delivery upserts is the conversion of a fetched entity whose type
  is \<open>article\<close> or \<open>product\<close>. For an entity of any other type both branches produce
  no record: an existing record of it is scheduled for removal, and a never-indexed one
  yields the empty action.\<close>

theorem type_gate:
  "(\<forall>r \<in> set (recordsToReIndex (delivery_actions U index DC slug n)).
      \<exists>c l d. Map_get (findDeliverItemWithChildrenByCodename (DC (message_project_id n)) c l) c = Some d
        \<and> (system_type d = ''article'' \<or> system_type d = ''product'')
        \<and> r = convertToAlgoliaItem U
                (findDeliverItemWithChildrenByCodename (DC (message_project_id n)) c l) slug d)
   \<and> (system_type entity \<noteq> ''article'' \<and> system_type entity \<noteq> ''product'' \<longrightarrow>
        (Map_get (findDeliverItemWithChildrenByCodename client (codename e) (language e)) (codename e) = Some entity
           \<longrightarrow> existing_action U client slug e
                 = \<lparr>objectIdsToRemove = [objectID e], recordsToReindex = []\<rparr>)
      \<and> (findAgoliaItems index2 (item_codename item) (item_language item) = []
           \<and> Map_get (findDeliverItemWithChildrenByCodename client (item_codename item) (item_language item))
                (item_codename item) = Some entity
           \<longrightarrow> item_actions U index2 client slug item
                 = [\<lparr>objectIdsToRemove = [], recordsToReindex = []\<rparr>]))"
proof (intro conjI ballI impI)
  fix r assume "r \<in> set (recordsToReIndex (delivery_actions U index DC slug n))"
  from delivery_upsert_origin[OF this]
  show "\<exists>c l d. Map_get (findDeliverItemWithChildrenByCodename (DC (message_project_id n)) c l) c = Some d
        \<and> (system_type d = ''article'' \<or> system_type d = ''product'')
        \<and> r = convertToAlgoliaItem U
                (findDeliverItemWithChildrenByCodename (DC (message_project_id n)) c l) slug d" .
next
  assume "system_type entity \<noteq> ''article'' \<and> system_type entity \<noteq> ''product''"
    and "Map_get (findDeliverItemWithChildrenByCodename client (codename e) (language e)) (codename e) = Some entity"
  then show "existing_action U client slug e = \<lparr>objectIdsToRemove = [objectID e], recordsToReindex = []\<rparr>"
    by (simp add: existing_action_def Let_def)
next
  assume "system_type entity \<noteq> ''article'' \<and> system_type entity \<noteq> ''product''"
    and "findAgoliaItems index2 (item_codename item) (item_language item) = []
           \<and> Map_get (findDeliverItemWithChildrenByCodename client (item_codename item) (item_language item))
                (item_codename item) = Some entity"
  then show "item_actions U index2 client slug item = [\<lparr>objectIdsToRemove = [], recordsToReindex = []\<rparr>]"
    by (simp add: item_actions_def Let_def)
qed

theorem type_gate_witness:
  "recordsToReIndex (delivery_actions ex_utils (stored_index [record_page1]) ex_DeliveryClient ''url''
       (delivery_of [item_page1, item_post1])) = [record_post1]
   \<and> system_type page1 \<noteq> ''article'' \<and> system_type page1 \<noteq> ''product''
   \<and> Map_get (findDeliverItemWithChildrenByCodename (ex_DeliveryClient ''project'')
         (codename record_page1) (language record_page1)) (codename record_page1) = Some page1
   \<and> existing_action ex_utils (ex_DeliveryClient ''project'') ''url'' record_page1
       = \<lparr>objectIdsToRemove = [''page-1_en''], recordsToReindex = []\<rparr>
   \<and> findAgoliaItems (stored_index []) (item_codename item_page1) (item_language item_page1) = []
   \<and> item_actions ex_utils (stored_index []) (ex_DeliveryClient ''project'') ''url'' item_page1
       = [\<lparr>objectIdsToRemove = [], recordsToReindex = []\<rparr>]"
  using type_gate[where U = ex_utils and index = "stored_index [record_page1]"
      and DC = ex_DeliveryClient and slug = "''url''" and n = "delivery_of [item_page1, item_post1]"
      and entity = page1 and client = "ex_DeliveryClient ''project''" and e = record_page1
      and ?index2.0 = "stored_index []" and item = item_page1]
  by (simp add: model_defs example_defs)

section \<open>C7: failures of the readers stay local\<close>



section \<open>C8: a notification with no indexed record\<close>

text \<open>C8, as the code has it. Take an element of the run and one of its items for which the
  index query returns no record. The run issues that item's search and exactly one fetch,
  for the notified codename and language, and the item yields one action, without
  removals: the element's removals are those of the element without the item. When the
  entity is not \<open>Eligible\<close> (not found, not of an allowed type, or rejected by the
  projection) the element's upserts are those of the element without the item. When it is
  \<open>Eligible\<close> with record \<open>r\<close>, exactly one upserted record carries \<open>r\<close>'s codename; it is
  \<open>r\<close> itself, handed to \<open>saveObjects\<close>, when no item processed later in the element
  produces a record of the same codename.\<close>

theorem never_indexed_item_in_run:
  assumes "n \<in> set (webhookDataArray parsed)"
    and "data_items n = xs @ item # ys"
    and "findAgoliaItems (run_index D apiKey qp) (item_codename item) (item_language item) = []"
  shows "fst (run D apiKey qp parsed) = map (element_calls D apiKey qp) (webhookDataArray parsed)
   \<and> fetch_keys (run_index D apiKey qp) item = [(item_codename item, item_language item)]
   \<and> IndexSearch (item_codename item) (item_language item) \<in> set (element_calls D apiKey qp n)
   \<and> DeliverFetch (message_project_id n) (item_codename item) (item_language item)
        \<in> set (element_calls D apiKey qp n)
   \<and> item_actions (utils D) (run_index D apiKey qp) (DeliveryClient D (message_project_id n))
         (stringProperty ''slug'' qp) item
       = [\<lparr>objectIdsToRemove = [],
           recordsToReindex =
             (case item_outcome (utils D) (DeliveryClient D (message_project_id n))
                     (stringProperty ''slug'' qp) item of
                Eligible r \<Rightarrow> [r]
              | _ \<Rightarrow> [])\<rparr>]
   \<and> objectIdsToRemove_merged (run_actions D apiKey qp n)
       = objectIdsToRemove_merged
           (actions_of (utils D) (run_index D apiKey qp) (DeliveryClient D (message_project_id n))
              (stringProperty ''slug'' qp) (xs @ ys))
   \<and> ((\<forall>r. item_outcome (utils D) (DeliveryClient D (message_project_id n))
               (stringProperty ''slug'' qp) item \<noteq> Eligible r)
       \<longrightarrow> recordsToReIndex (run_actions D apiKey qp n)
           = recordsToReIndex
               (actions_of (utils D) (run_index D apiKey qp) (DeliveryClient D (message_project_id n))
                  (stringProperty ''slug'' qp) (xs @ ys)))
   \<and> (\<forall>r. item_outcome (utils D) (DeliveryClient D (message_project_id n))
               (stringProperty ''slug'' qp) item = Eligible r
       \<longrightarrow> length (filter (\<lambda>y. codename y = codename r) (recordsToReIndex (run_actions D apiKey qp n))) = 1
         \<and> ((\<forall>y \<in> set (concat (map recordsToReindex
                    (actions_of (utils D) (run_index D apiKey qp) (DeliveryClient D (message_project_id n))
                       (stringProperty ''slug'' qp) ys))). codename y \<noteq> codename r)
            \<longrightarrow> r \<in> set (recordsToReIndex (run_actions D apiKey qp n))
              \<and> SaveObjects (recordsToReIndex (run_actions D apiKey qp n))
                  \<in> set (element_calls D apiKey qp n)))"
    (is "?c1 \<and> ?c2 \<and> ?c3 \<and> ?c4 \<and> ?c5 \<and> ?c6 \<and> ?c7 \<and> ?c8")
proof -
  let ?U = "utils D" and ?index = "run_index D apiKey qp"
  let ?client = "DeliveryClient D (message_project_id n)" and ?slug = "stringProperty ''slug'' qp"
  let ?out = "item_outcome ?U ?client ?slug item"
  let ?acts = "run_actions D apiKey qp n"
  have mem: "item \<in> set (data_items n)" by (simp add: assms(2))
  have acts: "?acts = actions_of ?U ?index ?client ?slug (xs @ item # ys)"
    by (simp add: delivery_actions_def assms(2))
  have c1: ?c1 by (rule run_trace)
  have c2: ?c2 using assms(3) by (simp add: fetch_keys_def)
  have c3: ?c3 using delivery_reads_search[OF mem] by simp
  have c4: ?c4 using delivery_reads_fetch[OF mem, of "item_codename item" "item_language item" ?index] c2
    by simp
  have c5: ?c5 using assms(3) by (rule item_actions_no_hits)
  have c6: ?c6 unfolding acts using c5 by (rule removal_free_item)
  have c7: ?c7
  proof
    assume "\<forall>r. ?out \<noteq> Eligible r"
    then have "(case ?out of Eligible r \<Rightarrow> [r] | _ \<Rightarrow> []) = []"
      by (cases ?out) auto
    with c5 have "item_actions ?U ?index ?client ?slug item = [\<lparr>objectIdsToRemove = [], recordsToReindex = []\<rparr>]"
      by simp
    then show "recordsToReIndex ?acts = recordsToReIndex (actions_of ?U ?index ?client ?slug (xs @ ys))"
      unfolding acts by (rule failed_item_contributes_nothing)
  qed
  have c8: ?c8
  proof (intro allI impI conjI)
    fix r assume el: "?out = Eligible r"
    with c5 have ia: "item_actions ?U ?index ?client ?slug item = [\<lparr>objectIdsToRemove = [], recordsToReindex = [r]\<rparr>]"
      by simp
    then have "\<lparr>objectIdsToRemove = [], recordsToReindex = [r]\<rparr> \<in> set ?acts"
      using item_actions_in_delivery[OF mem, of _ ?U ?index "DeliveryClient D" ?slug] by simp
    from merged_codenames_complete[OF this] have "codename r \<in> codename ` set (recordsToReIndex ?acts)"
      by simp
    with merged_records_distinct[of ?acts]
    show "length (filter (\<lambda>y. codename y = codename r) (recordsToReIndex ?acts)) = 1"
      by (rule one_per_key)
    assume later: "\<forall>y \<in> set (concat (map recordsToReindex (actions_of ?U ?index ?client ?slug ys))).
                     codename y \<noteq> codename r"
    have split: "concat (map recordsToReindex ?acts)
        = concat (map recordsToReindex (actions_of ?U ?index ?client ?slug xs)) @ [r]
          @ concat (map recordsToReindex (actions_of ?U ?index ?client ?slug ys))"
      unfolding acts using ia by (rule produced_records_split)
    have "r = last (filter (\<lambda>y. codename y = codename r) (concat (map recordsToReindex ?acts)))"
      unfolding split using last_of_codename[OF later] by simp
    moreover have "r \<in> set (concat (map recordsToReindex ?acts))" unfolding split by simp
    ultimately show in_merged: "r \<in> set (recordsToReIndex ?acts)" by (rule merged_last_kept[rotated])
    then have "recordsToReIndex ?acts \<noteq> []" by auto
    then show "SaveObjects (recordsToReIndex ?acts) \<in> set (element_calls D apiKey qp n)"
      by (rule save_call_issued)
  qed
  from c1 c2 c3 c4 c5 c6 c7 c8 show ?thesis by (intro conjI)
qed

theorem never_indexed_item_in_run_witness:
  "delivery_of [item_post1, item_post2]
     \<in> set (webhookDataArray (Legacy (delivery_of [item_post1, item_post2])))
   \<and> data_items (delivery_of [item_post1, item_post2]) = [] @ item_post1 # [item_post2]
   \<and> findAgoliaItems (run_index (ex_deps []) ''key'' ex_queryParams)
        (item_codename item_post1) (item_language item_post1) = []
   \<and> item_outcome ex_utils (ex_DeliveryClient ''project'') ''url'' item_post1 = Eligible record_post1
   \<and> fst (run (ex_deps []) ''key'' ex_queryParams (Legacy (delivery_of [item_post1, item_post2])))
       = [[IndexSearch ''post-1'' ''en'', IndexSearch ''post-2'' ''en'',
           DeliverFetch ''project'' ''post-1'' ''en'', DeliverFetch ''project'' ''post-2'' ''en'',
           SaveObjects [record_post1]]]
   \<and> record_post1 \<in> set (recordsToReIndex (run_actions (ex_deps []) ''key'' ex_queryParams
         (delivery_of [item_post1, item_post2])))
   \<and> SaveObjects (recordsToReIndex (run_actions (ex_deps []) ''key'' ex_queryParams
         (delivery_of [item_post1, item_post2])))
       \<in> set (element_calls (ex_deps []) ''key'' ex_queryParams (delivery_of [item_post1, item_post2]))
   \<and> data_items (delivery_of [item_post1, item_post2]) = [item_post1] @ item_post2 # []
   \<and> findAgoliaItems (run_index (ex_deps []) ''key'' ex_queryParams)
        (item_codename item_post2) (item_language item_post2) = []
   \<and> item_outcome ex_utils (ex_DeliveryClient ''project'') ''url'' item_post2 = Ineligible
   \<and> recordsToReIndex (run_actions (ex_deps []) ''key'' ex_queryParams
         (delivery_of [item_post1, item_post2]))
       = recordsToReIndex (actions_of (utils (ex_deps [])) (run_index (ex_deps []) ''key'' ex_queryParams)
           (DeliveryClient (ex_deps []) (message_project_id (delivery_of [item_post1, item_post2])))
           (stringProperty ''slug'' ex_queryParams) ([item_post1] @ []))"
proof -
  let ?n = "delivery_of [item_post1, item_post2]"
  have h1: "?n \<in> set (webhookDataArray (Legacy ?n))" by (simp add: webhookDataArray_def)
  have h2: "data_items ?n = [] @ item_post1 # [item_post2]" by (simp add: delivery_of_def)
  have h3: "findAgoliaItems (run_index (ex_deps []) ''key'' ex_queryParams)
        (item_codename item_post1) (item_language item_post1) = []"
    by (simp add: model_defs example_defs)
  have u: "utils (ex_deps []) = ex_utils" "DeliveryClient (ex_deps []) = ex_DeliveryClient"
    "stringProperty ''slug'' ex_queryParams = ''url''" "message_project_id ?n = ''project''"
    "run_index (ex_deps []) ''key'' ex_queryParams = stored_index []"
    by (simp_all add: ex_deps_def ex_deps_with_def ex_queryParams_def stringProperty_def delivery_of_def)
  have later: "\<forall>y \<in> set (concat (map recordsToReindex
       (actions_of ex_utils (stored_index []) (ex_DeliveryClient ''project'') ''url'' [item_post2]))).
       codename y \<noteq> codename record_post1"
    by (simp add: ex_actions_post2)
  have out: "item_outcome (utils (ex_deps [])) (DeliveryClient (ex_deps []) (message_project_id ?n))
               (stringProperty ''slug'' ex_queryParams) item_post1 = Eligible record_post1"
    by (simp only: u ex_outcome_post1)
  have later': "\<forall>y \<in> set (concat (map recordsToReindex
       (actions_of (utils (ex_deps [])) (run_index (ex_deps []) ''key'' ex_queryParams)
          (DeliveryClient (ex_deps []) (message_project_id ?n)) (stringProperty ''slug'' ex_queryParams)
          [item_post2]))). codename y \<noteq> codename record_post1"
    using later by (simp only: u)
  note t = never_indexed_item_in_run[OF h1 h2 h3]
  note c8 = t[THEN conjunct2, THEN conjunct2, THEN conjunct2, THEN conjunct2, THEN conjunct2,
              THEN conjunct2, THEN conjunct2]
  from c8 out later'
  have "record_post1 \<in> set (recordsToReIndex (run_actions (ex_deps []) ''key'' ex_queryParams ?n))
      \<and> SaveObjects (recordsToReIndex (run_actions (ex_deps []) ''key'' ex_queryParams ?n))
                  \<in> set (element_calls (ex_deps []) ''key'' ex_queryParams ?n)"
    by blast
  note first = this
  have g2: "data_items ?n = [item_post1] @ item_post2 # []" by (simp add: delivery_of_def)
  have g3: "findAgoliaItems (run_index (ex_deps []) ''key'' ex_queryParams)
        (item_codename item_post2) (item_language item_post2) = []"
    by (simp add: model_defs example_defs)
  have out2: "item_outcome ex_utils (ex_DeliveryClient ''project'') ''url'' item_post2 = Ineligible"
    by (simp add: classify_def model_defs example_defs)
  then have out2': "\<forall>r. item_outcome (utils (ex_deps [])) (DeliveryClient (ex_deps []) (message_project_id ?n))
               (stringProperty ''slug'' ex_queryParams) item_post2 \<noteq> Eligible r"
    by (simp only: u) simp
  note t2 = never_indexed_item_in_run[OF h1 g2 g3]
  note c7 = t2[THEN conjunct2, THEN conjunct2, THEN conjunct2, THEN conjunct2, THEN conjunct2,
               THEN conjunct2, THEN conjunct1]
  from c7 out2'
  have second: "recordsToReIndex (run_actions (ex_deps []) ''key'' ex_queryParams ?n)
       = recordsToReIndex (actions_of (utils (ex_deps [])) (run_index (ex_deps []) ''key'' ex_queryParams)
           (DeliveryClient (ex_deps []) (message_project_id ?n))
           (stringProperty ''slug'' ex_queryParams) ([item_post1] @ []))"
    by blast
  from h1 h2 h3 ex_outcome_post1 ex_run_post1_post2 first g2 g3 out2 second show ?thesis
    by (intro conjI) blast+
qed

text \<open>C8 as stated fails: one element names \<open>post-1\<close> in English and then in Spanish, neither
  indexed, both eligible. The English record is produced but the merge, keyed by codename,
  keeps the Spanish one only: the run's \<open>saveObjects\<close> call does not carry the record of
  the English notification.\<close>

theorem never_indexed_record_replaced_by_same_codename:
  "findAgoliaItems (run_index (ex_deps_languages []) ''key'' ex_queryParams) ''post-1'' ''en'' = []
   \<and> item_outcome ex_utils (ex_DeliveryClient_languages ''project'') ''url'' item_post1
       = Eligible record_post1
   \<and> fst (run (ex_deps_languages []) ''key'' ex_queryParams
            (Legacy (delivery_of [item_post1, item_post1_es])))
       = [[IndexSearch ''post-1'' ''en'', IndexSearch ''post-1'' ''es'',
           DeliverFetch ''project'' ''post-1'' ''en'', DeliverFetch ''project'' ''post-1'' ''es'',
           SaveObjects [record_post1_es]]]
   \<and> record_post1 \<notin> set (saved_records (concat (fst (run (ex_deps_languages []) ''key'' ex_queryParams
            (Legacy (delivery_of [item_post1, item_post1_es]))))))"
proof -
  have a: "findAgoliaItems (run_index (ex_deps_languages []) ''key'' ex_queryParams) ''post-1'' ''en'' = []"
    by (simp add: model_defs example_defs)
  have b: "item_outcome ex_utils (ex_DeliveryClient_languages ''project'') ''url'' item_post1
       = Eligible record_post1"
    by (simp add: classify_def model_defs example_defs)
  have c: "record_post1 \<notin> set (saved_records (concat (fst (run (ex_deps_languages []) ''key'' ex_queryParams
            (Legacy (delivery_of [item_post1, item_post1_es]))))))"
    by (simp add: ex_run_two_languages saved_records_def record_post1_def record_post1_es_def)
  from a b c ex_run_two_languages show ?thesis by blast
qed

section \<open>C9: input rejection\<close>

text \<open>C9. A request whose body is missing (or empty), whose query parameters are missing, or
  in which one of \<open>slug\<close>, \<open>appId\<close>, \<open>index\<close> is missing or not a string, is rejected:
  the handler issues no call to the index or to the delivery API, and its outcome is one of
  the error responses (405, 400, 500, 401) or the uncaught JSON syntax error that the
  wrapper turns into an error response.\<close>

theorem invalid_request_rejected_without_calls:
  assumes "body ev = None \<or> body ev = Some []
         \<or> queryStringParameters ev = None
         \<or> (\<exists>obj p. queryStringParameters ev = Some obj \<and> p \<in> {''slug'', ''appId'', ''index''}
               \<and> (\<forall>s. obj p \<noteq> Some (JString s)))"
  shows "fst (handler D ev) = []
       \<and> snd (handler D ev) \<in>
           {Inr (text_response 405 ''Method Not Allowed''),
            Inr (text_response 400 ''Missing Data''),
            Inr (missing_env_response D),
            Inr (text_response 401 ''Unauthorized''),
            Inl JSON_SyntaxError,
            Inr (text_response 400 ''Missing some query parameters, please check the documentation'')}"
proof -
  from assms have "\<not> truthy (body ev) \<or> \<not> areValidQueryParams (queryStringParameters ev)"
    by (auto simp: truthy_def areValidQueryParams_iff)
  with handler_rejects_or_runs[of D ev] show ?thesis by blast
qed

theorem invalid_request_rejected_without_calls_witness:
  "body (ex_event None ex_queryParams) = None
   \<and> fst (handler (ex_deps [record_post1]) (ex_event None ex_queryParams)) = []
   \<and> queryStringParameters
         (ex_event (Some ''one'') (Some [''slug'' \<mapsto> JString ''url'', ''appId'' \<mapsto> JOther]))
       = Some [''slug'' \<mapsto> JString ''url'', ''appId'' \<mapsto> JOther]
   \<and> [''slug'' \<mapsto> JString ''url'', ''appId'' \<mapsto> JOther] ''appId'' = Some JOther
   \<and> fst (handler (ex_deps [record_post1])
         (ex_event (Some ''one'') (Some [''slug'' \<mapsto> JString ''url'', ''appId'' \<mapsto> JOther]))) = []"
proof -
  let ?obj = "[''slug'' \<mapsto> JString ''url'', ''appId'' \<mapsto> JOther]"
  have h1: "body (ex_event None ex_queryParams) = None"
    by (simp add: ex_event_def)
  have q: "queryStringParameters (ex_event (Some ''one'') (Some ?obj)) = Some ?obj"
    by (simp add: ex_event_def)
  have o: "?obj ''appId'' = Some JOther" by simp
  have "\<exists>obj p. queryStringParameters (ex_event (Some ''one'') (Some ?obj)) = Some obj
          \<and> p \<in> {''slug'', ''appId'', ''index''} \<and> (\<forall>s. obj p \<noteq> Some (JString s))"
    using q o by (intro exI[of _ ?obj] exI[of _ "''appId''"]) simp
  then have h2: "body (ex_event (Some ''one'') (Some ?obj)) = None
         \<or> body (ex_event (Some ''one'') (Some ?obj)) = Some []
         \<or> queryStringParameters (ex_event (Some ''one'') (Some ?obj)) = None
         \<or> (\<exists>obj p. queryStringParameters (ex_event (Some ''one'') (Some ?obj)) = Some obj
               \<and> p \<in> {''slug'', ''appId'', ''index''} \<and> (\<forall>s. obj p \<noteq> Some (JString s)))"
    by blast
  from invalid_request_rejected_without_calls[of "ex_event None ex_queryParams" "ex_deps [record_post1]"] h1
  have r1: "fst (handler (ex_deps [record_post1]) (ex_event None ex_queryParams)) = []" by blast
  from invalid_request_rejected_without_calls[OF h2, of "ex_deps [record_post1]"]
  have r2: "fst (handler (ex_deps [record_post1]) (ex_event (Some ''one'') (Some ?obj))) = []" by blast
  from h1 r1 q o r2 show ?thesis by blast
qed

section \<open>C10: removals come from the index query\<close>

text \<open>C10. In every run, an identifier handed to \<open>deleteObjects\<close> is the \<open>objectID\<close> of a
  record that an index query of the same run returned, and that query was issued before
  the delete call: the run never removes an identifier it did not find indexed.\<close>

theorem removals_were_found_by_index_query:
  assumes "tr \<in> set (fst (run D apiKey qp parsed))"
    and "tr = pre @ DeleteObjects ids # post"
    and "oid \<in> set ids"
  shows "\<exists>c l. IndexSearch c l \<in> set pre \<and>
           (\<exists>e \<in> set (findAgoliaItems
                        (createAlgoliaClient D (stringProperty ''appId'' qp) apiKey
                           (stringProperty ''index'' qp)) c l).
              objectID e = oid)"
proof -
  let ?index = "createAlgoliaClient D (stringProperty ''appId'' qp) apiKey (stringProperty ''index'' qp)"
  from run_calls[OF assms(1)] obtain n where
    tr: "tr = fst (process_delivery (utils D) ?index (DeliveryClient D) (stringProperty ''slug'' qp) n)"
    by blast
  let ?acts = "delivery_actions (utils D) ?index (DeliveryClient D) (stringProperty ''slug'' qp) n"
  from process_delivery_calls[of "utils D" ?index "DeliveryClient D" "stringProperty ''slug'' qp" n] tr
  obtain saved where
    eq: "tr = delivery_reads ?index n @ write_calls (recordsToReIndex ?acts) (objectIdsToRemove_merged ?acts) saved"
    by auto
  have notread: "DeleteObjects ids \<notin> set (delivery_reads ?index n)"
    using delivery_reads_is_read[of "DeleteObjects ids" ?index n] by (auto simp: is_read_def)
  from eq assms(2) have
    "delivery_reads ?index n @ write_calls (recordsToReIndex ?acts) (objectIdsToRemove_merged ?acts) saved
       = pre @ DeleteObjects ids # post" by simp
  from split_after_reads[OF this notread] obtain ws where
    pre: "pre = delivery_reads ?index n @ ws"
    and ws: "write_calls (recordsToReIndex ?acts) (objectIdsToRemove_merged ?acts) saved = ws @ DeleteObjects ids # post"
    by blast
  have "DeleteObjects ids \<in> set (write_calls (recordsToReIndex ?acts) (objectIdsToRemove_merged ?acts) saved)"
    by (simp add: ws)
  then have "ids = objectIdsToRemove_merged ?acts"
    by (auto simp: write_calls_def split: if_splits)
  with assms(3) have "oid \<in> set (objectIdsToRemove_merged ?acts)" by simp
  from delivery_removal_origin[OF this] obtain item e where
    item: "item \<in> set (data_items n)"
    and e: "e \<in> set (findAgoliaItems ?index (item_codename item) (item_language item))"
    and oid: "objectID e = oid" by blast
  from delivery_reads_search[OF item, of ?index] pre
  have "IndexSearch (item_codename item) (item_language item) \<in> set pre" by simp
  with e oid show ?thesis by blast
qed

theorem removals_were_found_by_index_query_witness:
  "[IndexSearch ''post-2'' ''en'', DeliverFetch ''project'' ''post-2'' ''en'', DeleteObjects [''abc123'']]
     \<in> set (fst (run (ex_deps [record_post2]) ''key'' ex_queryParams (Legacy (delivery_of [item_post2]))))
   \<and> (\<exists>c l. IndexSearch c l \<in> set [IndexSearch ''post-2'' ''en'', DeliverFetch ''project'' ''post-2'' ''en'']
        \<and> (\<exists>e \<in> set (findAgoliaItems
                        (createAlgoliaClient (ex_deps [record_post2]) (stringProperty ''appId'' ex_queryParams)
                           ''key'' (stringProperty ''index'' ex_queryParams)) c l).
              objectID e = ''abc123''))"
proof -
  have h: "[IndexSearch ''post-2'' ''en'', DeliverFetch ''project'' ''post-2'' ''en'', DeleteObjects [''abc123'']]
     \<in> set (fst (run (ex_deps [record_post2]) ''key'' ex_queryParams (Legacy (delivery_of [item_post2]))))"
    by (simp add: ex_run_post2)
  from removals_were_found_by_index_query[OF h,
      of "[IndexSearch ''post-2'' ''en'', DeliverFetch ''project'' ''post-2'' ''en'']" "[''abc123'']" "[]" "''abc123''"]
  show ?thesis using h by simp
qed

end
